theory Spec2Isabelle
  imports Complex_Main "HOL-Library.Log_Nat"
begin

section \<open>Python strings\<close>

text \<open>
  A Python \<open>str\<close> is modelled as a \<open>string\<close> whose characters are the code points
  0..255 (Latin-1). The string methods below are the ones the pipeline calls:
  \<open>str.lower\<close>, \<open>str.strip\<close>, \<open>str.split\<close>, \<open>str.endswith\<close>.
\<close>

definition lower_char :: "char \<Rightarrow> char" where
  "lower_char c =
     (let n = (of_char c :: nat)
      in if (65 \<le> n \<and> n \<le> 90) \<or> (192 \<le> n \<and> n \<le> 222 \<and> n \<noteq> 215)
         then char_of (n + 32) else c)"

definition py_lower :: "string \<Rightarrow> string" where
  "py_lower s = map lower_char s"

text \<open>\<open>str.isspace\<close> on one character: TAB..CR, FS..US, space, NEL and NBSP.\<close>

definition py_isspace :: "char \<Rightarrow> bool" where
  "py_isspace c =
     (let n = (of_char c :: nat)
      in (9 \<le> n \<and> n \<le> 13) \<or> (28 \<le> n \<and> n \<le> 32) \<or> n = 133 \<or> n = 160)"

definition py_strip :: "string \<Rightarrow> string" where
  "py_strip s = rev (dropWhile py_isspace (rev (dropWhile py_isspace s)))"

text \<open>\<open>s.strip(chars)\<close> with an explicit set of characters to remove.\<close>

definition py_strip_chars :: "string \<Rightarrow> string \<Rightarrow> string" where
  "py_strip_chars chars s =
     rev (dropWhile (\<lambda>c. c \<in> set chars) (rev (dropWhile (\<lambda>c. c \<in> set chars) s)))"

definition py_endswith :: "string \<Rightarrow> string \<Rightarrow> bool" where
  "py_endswith s suffix =
     (length suffix \<le> length s \<and> drop (length s - length suffix) s = suffix)"

text \<open>
  \<open>s.split(sep, 1)\<close>: the text before the leftmost occurrence of \<open>sep\<close> and the text
  after it, or the whole string as the only piece when \<open>sep\<close> does not occur.
\<close>

fun py_split1 :: "string \<Rightarrow> string \<Rightarrow> string list" where
  "py_split1 sep [] = (if sep = [] then [[], []] else [[]])"
| "py_split1 sep (c # cs) =
     (if take (length sep) (c # cs) = sep then [[], drop (length sep) (c # cs)]
      else (case py_split1 sep cs of
              [] \<Rightarrow> [[c]]
            | p # ps \<Rightarrow> (c # p) # ps))"

text \<open>\<open>s.split(c)\<close> for a one-character separator: every occurrence splits.\<close>

fun py_split :: "char \<Rightarrow> string \<Rightarrow> string list" where
  "py_split sep [] = [[]]"
| "py_split sep (c # cs) =
     (if c = sep then [] # py_split sep cs
      else (case py_split sep cs of
              [] \<Rightarrow> [[c]]
            | p # ps \<Rightarrow> (c # p) # ps))"

section \<open>Exceptions\<close>

datatype exn =
    ValueError string
  | NotFound
  | Conflict
  | IndexError
  | ZeroDivisionError
  | StopIteration
  | OtherError

section \<open>Request Router: \<open>parse_filename\<close>\<close>

text \<open>
  \<^verbatim>\<open>
  def parse_filename(file_name):
      try:
          meta, actual_file = file_name.split("__", 1)
          dataset_id, table_id, mode = meta.split("-")
          return dataset_id, table_id, mode.lower(), actual_file
      except Exception:
          raise ValueError("Filename must be in format: dataset-table-mode__file.csv")
  \<close>
  Unpacking raises when the number of pieces is not the number of targets; the handler
  turns every such failure into the one \<open>ValueError\<close>.
\<close>

definition malformed_request :: exn where
  "malformed_request = ValueError ''Filename must be in format: dataset-table-mode__file.csv''"

definition parse_filename :: "string \<Rightarrow> exn + (string \<times> string \<times> string \<times> string)" where
  "parse_filename file_name =
     (case py_split1 ''__'' file_name of
        [meta, actual_file] \<Rightarrow>
          (case py_split (CHR ''-'') meta of
             [dataset_id, table_id, mode] \<Rightarrow>
               Inr (dataset_id, table_id, py_lower mode, actual_file)
           | _ \<Rightarrow> Inl malformed_request)
      | _ \<Rightarrow> Inl malformed_request)"

text \<open>
  The write disposition chosen in \<open>load_csv_to_bigquery\<close>:
  \<^verbatim>\<open>
  write_disposition=(
      bigquery.WriteDisposition.WRITE_TRUNCATE if mode == 'create'
      else bigquery.WriteDisposition.WRITE_APPEND
  )
  \<close>
\<close>

datatype write_disposition = WRITE_TRUNCATE | WRITE_APPEND

definition write_disposition_of :: "string \<Rightarrow> write_disposition" where
  "write_disposition_of mode = (if mode = ''create'' then WRITE_TRUNCATE else WRITE_APPEND)"

section \<open>Schema Inference Engine\<close>

text \<open>The column types are the strings \<open>'BOOLEAN'\<close>, \<open>'INT64'\<close>, \<open>'FLOAT64'\<close>, \<open>'STRING'\<close>.\<close>

datatype column_type = BOOLEAN | INT64 | FLOAT64 | STRING

subsection \<open>The built-in recognisers the classifier calls\<close>

definition is_digit :: "char \<Rightarrow> bool" where
  "is_digit c = (c \<in> set ''0123456789'')"

text \<open>
  \<open>bool_pattern.match(v)\<close> for
  \<open>re.compile(r'^(true|false|yes|no|t|f|y|n|0|1)$', re.IGNORECASE)\<close>.
  The values matched are stripped, so the \<open>$\<close> before a final newline plays no role.
\<close>

definition bool_words :: "string list" where
  "bool_words = [''true'', ''false'', ''yes'', ''no'', ''t'', ''f'', ''y'', ''n'', ''0'', ''1'']"

definition bool_pattern_match :: "string \<Rightarrow> bool" where
  "bool_pattern_match v = (py_lower v \<in> set bool_words)"

definition strip_sign :: "string \<Rightarrow> string" where
  "strip_sign s =
     (case s of
        [] \<Rightarrow> []
      | c # cs \<Rightarrow> if c = CHR ''+'' \<or> c = CHR ''-'' then cs else s)"

text \<open>Digits with single underscores between them: \<open>digit (["_"] digit)*\<close>.\<close>

fun digit_part :: "string \<Rightarrow> bool" where
  "digit_part [] = False"
| "digit_part [c] = is_digit c"
| "digit_part (c # d # cs) =
     (is_digit c \<and> (if d = CHR ''_'' then digit_part cs else digit_part (d # cs)))"

text \<open>
  \<open>int(v)\<close> returns rather than raising \<open>ValueError\<close>, for a stripped \<open>v\<close>: an
  optional sign and a digit part in base 10 (leading zeros are accepted), with no more
  than 4300 digits, the interpreter's default limit for the conversion of a string to an
  integer; the sign and the underscores do not count.
\<close>

definition max_str_digits :: nat where
  "max_str_digits = 4300"

definition int_parses :: "string \<Rightarrow> bool" where
  "int_parses v =
     (digit_part (strip_sign v) \<and> length (filter is_digit (strip_sign v)) \<le> max_str_digits)"

text \<open>
  \<open>float(v)\<close> returns rather than raising \<open>ValueError\<close>, for a stripped \<open>v\<close>.
  Every underscore must stand between two digits; with the underscores removed the text
  is an optional sign followed by \<open>inf\<close>, \<open>infinity\<close> or \<open>nan\<close> in any case, or by
  a decimal mantissa with at least one digit and an optional exponent.
\<close>

fun underscores_ok :: "char \<Rightarrow> string \<Rightarrow> bool" where
  "underscores_ok prev [] = (prev \<noteq> CHR ''_'')"
| "underscores_ok prev (c # cs) =
     (if c = CHR ''_'' then is_digit prev \<and> underscores_ok c cs
      else (if prev = CHR ''_'' then is_digit c else True) \<and> underscores_ok c cs)"

definition exponent_ok :: "string \<Rightarrow> bool" where
  "exponent_ok r =
     (case r of
        [] \<Rightarrow> True
      | e # ds \<Rightarrow> (e = CHR ''e'' \<or> e = CHR ''E'') \<and>
                 strip_sign ds \<noteq> [] \<and> list_all is_digit (strip_sign ds))"

definition float_plain :: "string \<Rightarrow> bool" where
  "float_plain s =
     (let body = strip_sign s
      in if py_lower body \<in> set [''inf'', ''infinity'', ''nan''] then True
         else
           (let ip = takeWhile is_digit body;
                r1 = dropWhile is_digit body;
                r2 = (case r1 of [] \<Rightarrow> [] | c # cs \<Rightarrow> if c = CHR ''.'' then cs else r1);
                has_point = (case r1 of [] \<Rightarrow> False | c # cs \<Rightarrow> c = CHR ''.'');
                fp = (if has_point then takeWhile is_digit r2 else []);
                r3 = (if has_point then dropWhile is_digit r2 else r1)
            in (ip \<noteq> [] \<or> fp \<noteq> []) \<and> exponent_ok r3))"

definition float_parses :: "string \<Rightarrow> bool" where
  "float_parses v =
     (underscores_ok (CHR 0x00) v \<and> float_plain (filter (\<lambda>c. c \<noteq> CHR ''_'') v))"

subsection \<open>\<open>detect_column_type\<close>\<close>

text \<open>
  \<^verbatim>\<open>
  non_null = [str(v).strip() for v in values if v not in [None, '']]
  \<close>
  A sampled value is \<open>None\<close> or a string.
\<close>

definition non_null_of :: "string option list \<Rightarrow> string list" where
  "non_null_of values =
     map (\<lambda>v. py_strip (the v)) (filter (\<lambda>v. v \<noteq> None \<and> v \<noteq> Some []) values)"

text \<open>
  \<^verbatim>\<open>
  int_count = 0
  for v in non_null:
      if '.' in v:
          break
      try:
          int(v)
          int_count += 1
      except ValueError:
          break
  \<close>
\<close>

fun int_count_loop :: "string list \<Rightarrow> nat \<Rightarrow> nat" where
  "int_count_loop [] int_count = int_count"
| "int_count_loop (v # vs) int_count =
     (if CHR ''.'' \<in> set v then int_count
      else if int_parses v then int_count_loop vs (int_count + 1)
      else int_count)"

text \<open>
  \<^verbatim>\<open>
  float_count = 0
  for v in non_null:
      try:
          float(v)
          float_count += 1
      except ValueError:
          break
  \<close>
\<close>

fun float_count_loop :: "string list \<Rightarrow> nat \<Rightarrow> nat" where
  "float_count_loop [] float_count = float_count"
| "float_count_loop (v # vs) float_count =
     (if float_parses v then float_count_loop vs (float_count + 1)
      else float_count)"

definition detect_column_type :: "string option list \<Rightarrow> column_type" where
  "detect_column_type values =
     (if values = [] then STRING
      else
        (let non_null = non_null_of values
         in if non_null = [] then STRING
            else if list_all bool_pattern_match non_null then BOOLEAN
            else if int_count_loop non_null 0 = length non_null then INT64
            else if float_count_loop non_null 0 = length non_null then FLOAT64
            else STRING))"

subsection \<open>\<open>clean_column\<close>\<close>

text \<open>
  \<^verbatim>\<open>
  def clean_column(name):
      return re.sub(r'[^a-zA-Z0-9_]', '_', name).strip('_').lower()
  \<close>
\<close>

definition is_word_char :: "char \<Rightarrow> bool" where
  "is_word_char c =
     (c \<in> set ''abcdefghijklmnopqrstuvwxyzABCDEFGHIJKLMNOPQRSTUVWXYZ0123456789_'')"

definition clean_column :: "string \<Rightarrow> string" where
  "clean_column name =
     py_lower (py_strip_chars ''_'' (map (\<lambda>c. if is_word_char c then c else CHR ''_'') name))"

section \<open>The external services\<close>

text \<open>
  BigQuery, Cloud Storage and the clock are outside the repository. Every call the code
  makes to them is recorded in a history, and what a call answers is a parameter: an
  environment gives, for the history so far and the arguments of the call, either the
  exception raised or the value returned. A theorem about all environments is a theorem
  about every behaviour of the services, including other invocations running between
  two calls of this one.
\<close>

text \<open>The SQL statements the code sends, by template and interpolated values.\<close>

datatype sql =
    RowCountSql string
  | ValidationSql string int
  | SchemaColumnsSql string string string
  | NaCountSql string "string list"
  | DupCountSql string
  | Statement string

datatype call =
    GetDataset string
  | CreateDataset string
  | GetTable string
  | LoadTableFromUri string string "(string \<times> column_type) list" write_disposition
  | Query sql "string option"
  | DownloadAsText string string
  | Sleep nat

type_synonym history = "call list"

text \<open>What \<open>get_table\<close> returns: the attributes of the table the code reads.\<close>

record table_info =
  num_rows :: int
  schema_fields :: "string list"

text \<open>A result row of a query, by column name.\<close>

datatype val = IntV int | StrV string

type_synonym row = "string \<rightharpoonup> val"

record env =
  project :: string
  get_dataset_r :: "history \<Rightarrow> string \<Rightarrow> exn + unit"
  create_dataset_r :: "history \<Rightarrow> string \<Rightarrow> exn + unit"
  get_table_r :: "history \<Rightarrow> string \<Rightarrow> exn + table_info"
  load_r :: "history \<Rightarrow> string \<Rightarrow> string \<Rightarrow> (string \<times> column_type) list
               \<Rightarrow> write_disposition \<Rightarrow> exn + string list"
  query_r :: "history \<Rightarrow> sql \<Rightarrow> string option \<Rightarrow> exn + row list"
  download_r :: "history \<Rightarrow> string \<Rightarrow> string \<Rightarrow> exn + string"
  csv_reader :: "string \<Rightarrow> string list list"
  utcnow :: "history \<Rightarrow> string"

definition get_dataset :: "env \<Rightarrow> string \<Rightarrow> history \<Rightarrow> (exn + unit) \<times> history" where
  "get_dataset e dataset_ref h = (get_dataset_r e h dataset_ref, h @ [GetDataset dataset_ref])"

definition create_dataset :: "env \<Rightarrow> string \<Rightarrow> history \<Rightarrow> (exn + unit) \<times> history" where
  "create_dataset e dataset_ref h =
     (create_dataset_r e h dataset_ref, h @ [CreateDataset dataset_ref])"

definition get_table :: "env \<Rightarrow> string \<Rightarrow> history \<Rightarrow> (exn + table_info) \<times> history" where
  "get_table e table_ref h = (get_table_r e h table_ref, h @ [GetTable table_ref])"

definition load_table_from_uri ::
  "env \<Rightarrow> string \<Rightarrow> string \<Rightarrow> (string \<times> column_type) list \<Rightarrow> write_disposition
     \<Rightarrow> history \<Rightarrow> (exn + string list) \<times> history" where
  "load_table_from_uri e uri table_ref schema wd h =
     (load_r e h uri table_ref schema wd, h @ [LoadTableFromUri uri table_ref schema wd])"

definition query :: "env \<Rightarrow> sql \<Rightarrow> string option \<Rightarrow> history \<Rightarrow> (exn + row list) \<times> history" where
  "query e q destination h = (query_r e h q destination, h @ [Query q destination])"

definition download_as_text ::
  "env \<Rightarrow> string \<Rightarrow> string \<Rightarrow> history \<Rightarrow> (exn + string) \<times> history" where
  "download_as_text e bucket_name file_name h =
     (download_r e h bucket_name file_name, h @ [DownloadAsText bucket_name file_name])"

definition sleep :: "nat \<Rightarrow> history \<Rightarrow> history" where
  "sleep delay h = h @ [Sleep delay]"

text \<open>
  Reading an integer column of a result row (\<open>result.row_count\<close>): a missing column
  raises; the count columns of the statements above are integers.
\<close>

definition int_attr :: "row \<Rightarrow> string \<Rightarrow> exn + int" where
  "int_attr r name =
     (case r name of Some (IntV i) \<Rightarrow> Inr i | _ \<Rightarrow> Inl OtherError)"

definition str_attr :: "row \<Rightarrow> string \<Rightarrow> exn + string" where
  "str_attr r name =
     (case r name of Some (StrV s) \<Rightarrow> Inr s | _ \<Rightarrow> Inl OtherError)"

text \<open>\<open>list(rows)[0]\<close>.\<close>

definition first_row :: "row list \<Rightarrow> exn + row" where
  "first_row rows = (case rows of [] \<Rightarrow> Inl IndexError | r # _ \<Rightarrow> Inr r)"

subsection \<open>\<open>process_csv_schema\<close>\<close>

text \<open>\<open>list(zip(*rows))\<close>: the columns of the rows, as long as the shortest row.\<close>

function zip_star :: "'a list list \<Rightarrow> 'a list list" where
  "zip_star rows =
     (if rows = [] \<or> list_ex (\<lambda>r. r = []) rows then []
      else map hd rows # zip_star (map tl rows))"
  by pat_completeness auto
termination
proof (relation "measure (\<lambda>rows. case rows of [] \<Rightarrow> 0 | r # _ \<Rightarrow> length r)")
  show "wf (measure (\<lambda>rows. case rows of [] \<Rightarrow> 0 | r # _ \<Rightarrow> length (r :: 'a list)))"
    by simp
next
  fix rows :: "'a list list"
  assume "\<not> (rows = [] \<or> list_ex (\<lambda>r. r = []) rows)"
  then show "(map tl rows, rows) \<in> measure (\<lambda>rows. case rows of [] \<Rightarrow> 0 | r # _ \<Rightarrow> length r)"
    by (cases rows) (auto simp: list_ex_iff)
qed

declare zip_star.simps [simp del]

text \<open>
  \<^verbatim>\<open>
  for _ in range(sample_size):
      try:
          row = next(reader)
          if any(field.strip() for field in row):  # Skip empty rows
              sample_rows.append(row)
      except StopIteration:
          break
  \<close>
\<close>

definition sample_rows_of :: "nat \<Rightarrow> string list list \<Rightarrow> string list list" where
  "sample_rows_of sample_size rows =
     filter (\<lambda>row. list_ex (\<lambda>field. py_strip field \<noteq> []) row) (take sample_size rows)"

text \<open>
  The function returns \<open>(clean_fields, schema, type_report)\<close>, or
  \<open>(None, None, None)\<close> when anything in its body raised: the download, \<open>next(reader)\<close>
  on a file without a header line, or the \<open>ValueError\<close> for a sample without rows.
  \<open>csv_reader\<close> stands for \<open>list(csv.reader(text.splitlines()))\<close>; an error of the
  reader in the middle of the file is not modelled.
\<close>

type_synonym schema_result =
  "string list \<times> (string \<times> column_type) list \<times> (string \<rightharpoonup> column_type)"

definition process_csv_schema ::
  "env \<Rightarrow> string \<Rightarrow> string \<Rightarrow> nat \<Rightarrow> history \<Rightarrow> schema_result option \<times> history" where
  "process_csv_schema e bucket_name file_name sample_size h =
     (case download_as_text e bucket_name file_name h of
        (r, h1) \<Rightarrow>
          (case r of
             Inl ex \<Rightarrow> (None, h1)
           | Inr content \<Rightarrow>
               (case csv_reader e content of
                  [] \<Rightarrow> (None, h1)
                | raw_header # rest \<Rightarrow>
                    (let sample_rows = sample_rows_of sample_size rest
                     in if sample_rows = [] then (None, h1)
                        else
                          (let columns = zip_star sample_rows;
                               schema = map (\<lambda>(col_name, col_values).
                                               (clean_column col_name,
                                                detect_column_type (map Some col_values)))
                                            (zip raw_header columns);
                               clean_fields = map fst schema;
                               type_report = fold (\<lambda>(n, t) m. m(n \<mapsto> t)) schema Map.empty
                           in (Some (clean_fields, schema, type_report), h1))))))"

section \<open>Table Provisioner\<close>

text \<open>
  \<^verbatim>\<open>
  def verify_dataset_creation(bq, dataset_ref, max_attempts=5, delay=30):
      for attempt in range(max_attempts):
          try:
              bq.get_dataset(dataset_ref)
              return True
          except NotFound:
              if attempt < max_attempts - 1:
                  time.sleep(delay)
              else:
                  return False
  \<close>
  The result is \<open>True\<close>, \<open>False\<close>, or \<open>None\<close> when the loop body never runs; an
  exception other than \<open>NotFound\<close> leaves the function.
\<close>

fun verify_dataset_creation_loop ::
  "env \<Rightarrow> string \<Rightarrow> nat \<Rightarrow> nat \<Rightarrow> nat list \<Rightarrow> history \<Rightarrow> (exn + bool option) \<times> history" where
  "verify_dataset_creation_loop e dataset_ref max_attempts delay [] h = (Inr None, h)"
| "verify_dataset_creation_loop e dataset_ref max_attempts delay (attempt # rest) h =
     (case get_dataset e dataset_ref h of
        (r, h1) \<Rightarrow>
          (case r of
             Inr u \<Rightarrow> (Inr (Some True), h1)
           | Inl ex \<Rightarrow>
               if ex = NotFound then
                 (if int attempt < int max_attempts - 1
                  then verify_dataset_creation_loop e dataset_ref max_attempts delay rest
                         (sleep delay h1)
                  else (Inr (Some False), h1))
               else (Inl ex, h1)))"

definition verify_dataset_creation ::
  "env \<Rightarrow> string \<Rightarrow> nat \<Rightarrow> nat \<Rightarrow> history \<Rightarrow> (exn + bool option) \<times> history" where
  "verify_dataset_creation e dataset_ref max_attempts delay h =
     verify_dataset_creation_loop e dataset_ref max_attempts delay [0..<max_attempts] h"

text \<open>
  \<^verbatim>\<open>
  def create_dataset_if_not_exists(bq, project_id, dataset_id):
      dataset_ref = bigquery.Dataset(f"{project_id}.{dataset_id}")
      try:
          bq.get_dataset(dataset_ref)
          return True
      except NotFound:
          try:
              bq.create_dataset(dataset_ref)
              return verify_dataset_creation(bq, dataset_ref)
          except Conflict:
              return True
          except Exception as e:
              return False
  \<close>
  The inner handlers also cover what \<open>verify_dataset_creation\<close> raises.
\<close>

definition create_dataset_if_not_exists ::
  "env \<Rightarrow> string \<Rightarrow> string \<Rightarrow> history \<Rightarrow> (exn + bool option) \<times> history" where
  "create_dataset_if_not_exists e project_id dataset_id h =
     (let dataset_ref = project_id @ ''.'' @ dataset_id
      in case get_dataset e dataset_ref h of
           (r, h1) \<Rightarrow>
             (case r of
                Inr u \<Rightarrow> (Inr (Some True), h1)
              | Inl ex \<Rightarrow>
                  if ex = NotFound then
                    (case create_dataset e dataset_ref h1 of
                       (c, h2) \<Rightarrow>
                         (case c of
                            Inr u \<Rightarrow>
                              (case verify_dataset_creation e dataset_ref 5 30 h2 of
                                 (v, h3) \<Rightarrow>
                                   (case v of
                                      Inr b \<Rightarrow> (Inr b, h3)
                                    | Inl ex2 \<Rightarrow>
                                        if ex2 = Conflict then (Inr (Some True), h3)
                                        else (Inr (Some False), h3)))
                          | Inl ex1 \<Rightarrow>
                              if ex1 = Conflict then (Inr (Some True), h2)
                              else (Inr (Some False), h2)))
                  else (Inl ex, h1)))"

section \<open>Load Orchestrator\<close>

text \<open>
  \<^verbatim>\<open>
  def verify_table_load(bq, table_ref, max_attempts=5, delay=30):
      for attempt in range(max_attempts):
          try:
              table = bq.get_table(table_ref)
              if table.num_rows > 0:
                  return True
              elif attempt < max_attempts - 1:
                  time.sleep(delay)
              else:
                  logger.warning("Table created but appears to be empty")
                  return True
          except NotFound:
              logger.error(f"Table not found: {table_ref}")
              return False
  \<close>
\<close>

fun verify_table_load_loop ::
  "env \<Rightarrow> string \<Rightarrow> nat \<Rightarrow> nat \<Rightarrow> nat list \<Rightarrow> history \<Rightarrow> (exn + bool option) \<times> history" where
  "verify_table_load_loop e table_ref max_attempts delay [] h = (Inr None, h)"
| "verify_table_load_loop e table_ref max_attempts delay (attempt # rest) h =
     (case get_table e table_ref h of
        (r, h1) \<Rightarrow>
          (case r of
             Inr table \<Rightarrow>
               if num_rows table > 0 then (Inr (Some True), h1)
               else if int attempt < int max_attempts - 1
               then verify_table_load_loop e table_ref max_attempts delay rest (sleep delay h1)
               else (Inr (Some True), h1)
           | Inl ex \<Rightarrow>
               if ex = NotFound then (Inr (Some False), h1) else (Inl ex, h1)))"

definition verify_table_load ::
  "env \<Rightarrow> string \<Rightarrow> nat \<Rightarrow> nat \<Rightarrow> history \<Rightarrow> (exn + bool option) \<times> history" where
  "verify_table_load e table_ref max_attempts delay h =
     verify_table_load_loop e table_ref max_attempts delay [0..<max_attempts] h"

text \<open>
  \<^verbatim>\<open>
  def load_csv_to_bigquery(bq, uri, table_ref, schema, mode):
      job_config = bigquery.LoadJobConfig(schema=schema, ...,
          write_disposition=(WRITE_TRUNCATE if mode == 'create' else WRITE_APPEND), ...)
      try:
          load_job = bq.load_table_from_uri(uri, table_ref, job_config=job_config)
          load_job.result()
          ...
          return verify_table_load(bq, table_ref)
      except Exception as e:
          return False
  \<close>
  Submitting the job and waiting for it are one call here; its answer is the job's
  \<open>errors\<close>, which are only logged.
\<close>

definition load_csv_to_bigquery ::
  "env \<Rightarrow> string \<Rightarrow> string \<Rightarrow> (string \<times> column_type) list \<Rightarrow> string \<Rightarrow> history
     \<Rightarrow> bool option \<times> history" where
  "load_csv_to_bigquery e uri table_ref schema mode h =
     (case load_table_from_uri e uri table_ref schema (write_disposition_of mode) h of
        (r, h1) \<Rightarrow>
          (case r of
             Inl ex \<Rightarrow> (Some False, h1)
           | Inr errors \<Rightarrow>
               (case verify_table_load e table_ref 5 30 h1 of
                  (v, h2) \<Rightarrow>
                    (case v of
                       Inr b \<Rightarrow> (b, h2)
                     | Inl ex \<Rightarrow> (Some False, h2)))))"

section \<open>Floating-point arithmetic\<close>

text \<open>
  A Python \<open>float\<close> is a rational number, and an arithmetic operation returns the
  rounding of the exact result. The rounding function \<open>rnd\<close> is a parameter of every
  definition that computes with floats: the theorems hold for each rounding, that of
  binary64 and the identity (exact arithmetic) among them. Overflow and NaN are not
  modelled. \<open>/\<close> on integers raises \<open>ZeroDivisionError\<close> on a zero divisor.
\<close>

definition truediv :: "(rat \<Rightarrow> rat) \<Rightarrow> int \<Rightarrow> int \<Rightarrow> exn + rat" where
  "truediv rnd a b =
     (if b = 0 then Inl ZeroDivisionError else Inr (rnd (of_int a / of_int b)))"

text \<open>The same division where the divisor is known not to be zero.\<close>

definition fdiv :: "(rat \<Rightarrow> rat) \<Rightarrow> int \<Rightarrow> int \<Rightarrow> rat" where
  "fdiv rnd a b = rnd (of_int a / of_int b)"

definition fmul :: "(rat \<Rightarrow> rat) \<Rightarrow> rat \<Rightarrow> rat \<Rightarrow> rat" where
  "fmul rnd x y = rnd (x * y)"

definition fadd :: "(rat \<Rightarrow> rat) \<Rightarrow> rat \<Rightarrow> rat \<Rightarrow> rat" where
  "fadd rnd x y = rnd (x + y)"

subsection \<open>The rounding of binary64\<close>

text \<open>
  Round to nearest, ties to even, with a significand of 53 bits: for a positive \<open>x\<close>
  in the binade \<open>2 ^ e \<le> x < 2 ^ (e + 1)\<close> the result is the multiple of
  \<open>2 ^ (e - 52)\<close> nearest to \<open>x\<close>. The exponent is not bounded here, so overflow
  and subnormal numbers are left out; the counts and percentages of the pipeline are far
  from both.
\<close>

definition round_half_even :: "rat \<Rightarrow> int" where
  "round_half_even x =
     (let f = \<lfloor>x\<rfloor>; r = x - of_int f
      in if r < 1 / 2 then f else if 1 / 2 < r then f + 1 else if even f then f else f + 1)"

definition binade :: "rat \<Rightarrow> int" where
  "binade x =
     (if 1 \<le> x then int (floorlog 2 (nat \<lfloor>x\<rfloor>)) - 1
      else - int (floorlog 2 (nat (\<lceil>1 / x\<rceil> - 1))))"

definition round64_pos :: "rat \<Rightarrow> rat" where
  "round64_pos x =
     of_int (round_half_even (x / 2 powi (binade x - 52))) * 2 powi (binade x - 52)"

definition round64 :: "rat \<Rightarrow> rat" where
  "round64 x = (if x = 0 then 0 else if 0 < x then round64_pos x else - round64_pos (- x))"

section \<open>Result Validator\<close>

text \<open>
  \<^verbatim>\<open>
  def get_row_count(self, table_ref):
      try:
          query = f"SELECT COUNT(*) as row_count FROM `{table_ref}`"
          result = list(self.bq.query(query).result())[0]
          return result.row_count
      except Exception as e:
          return 0
  \<close>
\<close>

definition get_row_count :: "env \<Rightarrow> string \<Rightarrow> history \<Rightarrow> int \<times> history" where
  "get_row_count e table_ref h =
     (case query e (RowCountSql table_ref) None h of
        (r, h1) \<Rightarrow>
          (case r of
             Inl ex \<Rightarrow> (0, h1)
           | Inr rows \<Rightarrow>
               (case first_row rows of
                  Inl ex \<Rightarrow> (0, h1)
                | Inr result \<Rightarrow>
                    (case int_attr result ''row_count'' of
                       Inl ex \<Rightarrow> (0, h1)
                     | Inr n \<Rightarrow> (n, h1)))))"

text \<open>
  \<^verbatim>\<open>
  def validate_cleaning_results(self, table_ref, original_row_count, tolerance_pct=1.0):
      validation_query = f"""
      SELECT COUNT(*) as current_row_count,
             COUNT(*) - {original_row_count} as row_count_change
      FROM `{table_ref}`"""
      try:
          query_job = self.bq.query(validation_query)
          result = list(query_job.result())[0]
          if result.row_count_change != 0:
              print(f"... {original_row_count} -> {result.current_row_count}")
              change_pct = abs(result.row_count_change) / original_row_count * 100
              if change_pct > tolerance_pct:
                  return False
          print(f"... Row count: {result.current_row_count}")
          return True
      except Exception as e:
          return False
  \<close>
\<close>

definition validate_cleaning_results ::
  "(rat \<Rightarrow> rat) \<Rightarrow> env \<Rightarrow> string \<Rightarrow> int \<Rightarrow> rat \<Rightarrow> history \<Rightarrow> bool \<times> history" where
  "validate_cleaning_results rnd e table_ref original_row_count tolerance_pct h =
     (case query e (ValidationSql table_ref original_row_count) None h of
        (r, h1) \<Rightarrow>
          (case r of
             Inl ex \<Rightarrow> (False, h1)
           | Inr rows \<Rightarrow>
               (case first_row rows of
                  Inl ex \<Rightarrow> (False, h1)
                | Inr result \<Rightarrow>
                    (case int_attr result ''row_count_change'' of
                       Inl ex \<Rightarrow> (False, h1)
                     | Inr row_count_change \<Rightarrow>
                         (case int_attr result ''current_row_count'' of
                            Inl ex \<Rightarrow> (False, h1)
                          | Inr current_row_count \<Rightarrow>
                              if row_count_change \<noteq> 0 then
                                (case truediv rnd \<bar>row_count_change\<bar> original_row_count of
                                   Inl ex \<Rightarrow> (False, h1)
                                 | Inr q \<Rightarrow>
                                     (let change_pct = fmul rnd q 100
                                      in if change_pct > tolerance_pct then (False, h1)
                                         else (True, h1)))
                              else (True, h1))))))"

text \<open>
  \<^verbatim>\<open>
  def validate_data_integrity(self, table_ref, fields):
      try:
          schema_query = f"""
          SELECT column_name
          FROM `{table_ref.split('.')[0]}.{table_ref.split('.')[1]}.INFORMATION_SCHEMA.COLUMNS`
          WHERE table_name = '{table_ref.split('.')[2]}'"""
          query_job = self.bq.query(schema_query)
          schema_columns = [row.column_name for row in query_job.result()]
          missing_columns = set(fields) - set(schema_columns)
          if missing_columns:
              return False
          return True
      except Exception as e:
          return True
  \<close>
  Indexing the pieces of \<open>table_ref\<close> raises \<open>IndexError\<close>, before the query is sent,
  when there are fewer than three.
\<close>

fun column_names :: "row list \<Rightarrow> exn + string list" where
  "column_names [] = Inr []"
| "column_names (r # rs) =
     (case str_attr r ''column_name'' of
        Inl ex \<Rightarrow> Inl ex
      | Inr n \<Rightarrow> (case column_names rs of Inl ex \<Rightarrow> Inl ex | Inr ns \<Rightarrow> Inr (n # ns)))"

definition validate_data_integrity ::
  "env \<Rightarrow> string \<Rightarrow> string list \<Rightarrow> history \<Rightarrow> bool \<times> history" where
  "validate_data_integrity e table_ref fields' h =
     (case py_split (CHR ''.'') table_ref of
        p0 # p1 # p2 # ps \<Rightarrow>
          (case query e (SchemaColumnsSql p0 p1 p2) None h of
             (r, h1) \<Rightarrow>
               (case r of
                  Inl ex \<Rightarrow> (True, h1)
                | Inr rows \<Rightarrow>
                    (case column_names rows of
                       Inl ex \<Rightarrow> (True, h1)
                     | Inr schema_columns \<Rightarrow>
                         (let missing_columns = set fields' - set schema_columns
                          in if missing_columns \<noteq> {} then (False, h1) else (True, h1)))))
      | _ \<Rightarrow> (True, h))"

section \<open>The entry point \<open>gcs_to_bq\<close>\<close>

text \<open>
  \<^verbatim>\<open>
  def run_data_quality_checks(bq, table_ref, clean_fields):
      validator = DataValidator(bq)
      row_count = validator.get_row_count(table_ref)
      if row_count == 0:
          return False
      if not validator.validate_data_integrity(table_ref, clean_fields):
          return False
      if len(clean_fields) < 2:
          return False
      return True
  \<close>
\<close>

definition run_data_quality_checks ::
  "env \<Rightarrow> string \<Rightarrow> string list \<Rightarrow> history \<Rightarrow> bool \<times> history" where
  "run_data_quality_checks e table_ref clean_fields h =
     (case get_row_count e table_ref h of
        (row_count, h1) \<Rightarrow>
          if row_count = 0 then (False, h1)
          else
            (case validate_data_integrity e table_ref clean_fields h1 of
               (ok, h2) \<Rightarrow>
                 if \<not> ok then (False, h2)
                 else if length clean_fields < 2 then (False, h2)
                 else (True, h2)))"

text \<open>
  The rest of the body after the existence check (\<open># Load data into BigQuery\<close> and
  \<open># Run essential quality checks\<close>): every path returns \<open>None\<close>.
\<close>

definition gcs_to_bq_load ::
  "env \<Rightarrow> string \<Rightarrow> string \<Rightarrow> string \<Rightarrow> (string \<times> column_type) list \<Rightarrow> string list
     \<Rightarrow> string \<Rightarrow> history \<Rightarrow> (exn + unit) \<times> history" where
  "gcs_to_bq_load e bucket_name name table_ref schema clean_fields mode h =
     (let uri = ''gs://'' @ bucket_name @ ''/'' @ name
      in case load_csv_to_bigquery e uri table_ref schema mode h of
           (loaded, h1) \<Rightarrow>
             if loaded \<noteq> Some True then (Inr (), h1)
             else
               (case run_data_quality_checks e table_ref clean_fields h1 of
                  (ok, h2) \<Rightarrow> (Inr (), h2)))"

text \<open>
  \<^verbatim>\<open>
  def gcs_to_bq(event, context):
      if not event['name'].endswith('.csv'):
          return
      try:
          dataset_id, table_id, mode, actual_file = parse_filename(event['name'])
          bq = bigquery.Client(); storage_client = storage.Client()
          project_id = bq.project
          bucket_name = event['bucket']
          clean_fields, schema, type_report = process_csv_schema(
              storage_client, bucket_name, event['name'])
          if not clean_fields:
              return
          if not create_dataset_if_not_exists(bq, project_id, dataset_id):
              return
          table_ref = f"{project_id}.{dataset_id}.{table_id}"
          if mode == 'create':
              try:
                  existing_table = bq.get_table(table_ref)
                  logger.warning(f"Table already exists: ...")
                  return
              except NotFound:
                  pass
          uri = f"gs://{bucket_name}/{event['name']}"
          if not load_csv_to_bigquery(bq, uri, table_ref, schema, mode):
              return
          if not run_data_quality_checks(bq, table_ref, clean_fields):
              return
      except Exception as e:
          logger.error(...)
          raise
  \<close>
  The event is its bucket and its object name. The clients are taken as constructed.
\<close>

definition gcs_to_bq :: "env \<Rightarrow> string \<times> string \<Rightarrow> history \<Rightarrow> (exn + unit) \<times> history" where
  "gcs_to_bq e event h =
     (let bucket_name = fst event; name = snd event
      in if \<not> py_endswith name ''.csv'' then (Inr (), h)
         else
           (case parse_filename name of
              Inl ex \<Rightarrow> (Inl ex, h)
            | Inr (dataset_id, table_id, mode, actual_file) \<Rightarrow>
                (let project_id = project e
                 in case process_csv_schema e bucket_name name 100 h of
                      (sch, h1) \<Rightarrow>
                        (case sch of
                           None \<Rightarrow> (Inr (), h1)
                         | Some (clean_fields, schema, type_report) \<Rightarrow>
                             if clean_fields = [] then (Inr (), h1)
                             else
                               (case create_dataset_if_not_exists e project_id dataset_id h1 of
                                  (d, h2) \<Rightarrow>
                                    (case d of
                                       Inl ex \<Rightarrow> (Inl ex, h2)
                                     | Inr ok \<Rightarrow>
                                         if ok \<noteq> Some True then (Inr (), h2)
                                         else
                                           (let table_ref =
                                                  project_id @ ''.'' @ dataset_id @ ''.'' @ table_id
                                            in if mode = ''create'' then
                                                 (case get_table e table_ref h2 of
                                                    (t, h3) \<Rightarrow>
                                                      (case t of
                                                         Inr existing_table \<Rightarrow> (Inr (), h3)
                                                       | Inl ex \<Rightarrow>
                                                           if ex = NotFound
                                                           then gcs_to_bq_load e bucket_name name
                                                                  table_ref schema clean_fields
                                                                  mode h3
                                                           else (Inl ex, h3)))
                                               else gcs_to_bq_load e bucket_name name table_ref
                                                      schema clean_fields mode h2)))))))"

section \<open>Cleaning Engine: \<open>DataCleaner\<close>\<close>

datatype operation = TRIM | NULLIF_EMPTY | NULLIF_WHITESPACE

text \<open>The configuration dictionary, with its three keys.\<close>

record cleaning_config =
  max_empty_percentage :: rat
  min_issue_percentage :: rat
  operations :: "string list"

text \<open>
  \<^verbatim>\<open>
  def _get_default_config(self):
      return {
          'max_empty_percentage': 50,
          'min_issue_percentage': 1,
          'operations': ['trim', 'nullify_empty', 'nullify_whitespace']
      }
  \<close>
\<close>

definition get_default_config :: cleaning_config where
  "get_default_config =
     \<lparr>max_empty_percentage = 50, min_issue_percentage = 1,
      operations = [''trim'', ''nullify_empty'', ''nullify_whitespace'']\<rparr>"

text \<open>An entry of the result: \<open>{'field': ..., 'operations': ..., 'issues_pct': ...}\<close>.\<close>

record cleaning_operation =
  field :: string
  field_operations :: "operation list"
  issues_pct :: rat

text \<open>\<open>stats.get(key, 0)\<close>.\<close>

definition stats_get :: "(string \<rightharpoonup> int) \<Rightarrow> string \<Rightarrow> int" where
  "stats_get stats key = (case stats key of None \<Rightarrow> 0 | Some v \<Rightarrow> v)"

text \<open>
  \<^verbatim>\<open>
  def _determine_cleaning_operations(self, fields, quality_report, config):
      cleaning_operations = []
      for field in fields:
          stats = quality_report.get(field, {})
          total_rows = stats.get('total_rows', 0)
          if total_rows == 0:
              continue
          empty_pct = (stats.get('empty_string_count', 0) / total_rows) * 100
          whitespace_pct = (stats.get('whitespace_only_count', 0) / total_rows) * 100
          total_issues_pct = empty_pct + whitespace_pct
          if (config['min_issue_percentage'] <= total_issues_pct
                  <= config['max_empty_percentage']):
              operations = []
              if 'trim' in config['operations']:
                  operations.append('TRIM')
              if 'nullify_empty' in config['operations'] \
                      and empty_pct < config['max_empty_percentage']:
                  operations.append('NULLIF_EMPTY')
              if 'nullify_whitespace' in config['operations'] \
                      and whitespace_pct < config['max_empty_percentage']:
                  operations.append('NULLIF_WHITESPACE')
              if operations:
                  cleaning_operations.append({'field': field,
                      'operations': operations, 'issues_pct': total_issues_pct})
      return cleaning_operations
  \<close>
\<close>

definition empty_pct_of :: "(rat \<Rightarrow> rat) \<Rightarrow> (string \<rightharpoonup> int) \<Rightarrow> rat" where
  "empty_pct_of rnd stats =
     fmul rnd (fdiv rnd (stats_get stats ''empty_string_count'') (stats_get stats ''total_rows'')) 100"

definition whitespace_pct_of :: "(rat \<Rightarrow> rat) \<Rightarrow> (string \<rightharpoonup> int) \<Rightarrow> rat" where
  "whitespace_pct_of rnd stats =
     fmul rnd (fdiv rnd (stats_get stats ''whitespace_only_count'') (stats_get stats ''total_rows'')) 100"

definition total_issues_pct_of :: "(rat \<Rightarrow> rat) \<Rightarrow> (string \<rightharpoonup> int) \<Rightarrow> rat" where
  "total_issues_pct_of rnd stats = fadd rnd (empty_pct_of rnd stats) (whitespace_pct_of rnd stats)"

definition operations_for :: "cleaning_config \<Rightarrow> rat \<Rightarrow> rat \<Rightarrow> operation list" where
  "operations_for config empty_pct whitespace_pct =
     (if ''trim'' \<in> set (operations config) then [TRIM] else []) @
     (if ''nullify_empty'' \<in> set (operations config) \<and> empty_pct < max_empty_percentage config
      then [NULLIF_EMPTY] else []) @
     (if ''nullify_whitespace'' \<in> set (operations config) \<and>
         whitespace_pct < max_empty_percentage config
      then [NULLIF_WHITESPACE] else [])"

fun determine_cleaning_operations ::
  "(rat \<Rightarrow> rat) \<Rightarrow> string list \<Rightarrow> (string \<rightharpoonup> (string \<rightharpoonup> int)) \<Rightarrow> cleaning_config
     \<Rightarrow> cleaning_operation list" where
  "determine_cleaning_operations rnd [] quality_report config = []"
| "determine_cleaning_operations rnd (f # fs) quality_report config =
     (let stats = (case quality_report f of None \<Rightarrow> Map.empty | Some st \<Rightarrow> st);
          total_rows = stats_get stats ''total_rows''
      in if total_rows = 0 then determine_cleaning_operations rnd fs quality_report config
         else
           (let empty_pct = empty_pct_of rnd stats;
                whitespace_pct = whitespace_pct_of rnd stats;
                total_issues_pct = total_issues_pct_of rnd stats
            in if min_issue_percentage config \<le> total_issues_pct \<and>
                  total_issues_pct \<le> max_empty_percentage config
               then
                 (let ops = operations_for config empty_pct whitespace_pct
                  in if ops \<noteq> []
                     then \<lparr>field = f, field_operations = ops, issues_pct = total_issues_pct\<rparr>
                            # determine_cleaning_operations rnd fs quality_report config
                     else determine_cleaning_operations rnd fs quality_report config)
               else determine_cleaning_operations rnd fs quality_report config))"

section \<open>Copy-based remediation: \<open>clean_bq_table\<close>\<close>

text \<open>The decoded Pub/Sub message.\<close>

record payload =
  project_id :: string
  dataset_id :: string
  table_id :: string

text \<open>\<open>sep.join(xs)\<close>.\<close>

fun py_join :: "string \<Rightarrow> string list \<Rightarrow> string" where
  "py_join sep [] = []"
| "py_join sep [x] = x"
| "py_join sep (x # y # ys) = x @ sep @ py_join sep (y # ys)"

text \<open>\<open>client.query(q).to_dataframe().iloc[0][name]\<close>.\<close>

definition first_count :: "row list \<Rightarrow> string \<Rightarrow> exn + int" where
  "first_count rows name =
     (case first_row rows of Inl ex \<Rightarrow> Inl ex | Inr r \<Rightarrow> int_attr r name)"

text \<open>
  \<^verbatim>\<open>
  select_clause = "SELECT *"
  # Add DISTINCT if duplicates < 10%
  if dup_percentage < 0.1 and dup_count > 0:
      select_clause = "SELECT DISTINCT *"
  \<close>
  with \<open>dup_percentage = dup_count / total_rows\<close>, computed after the return on
  \<open>total_rows == 0\<close>. The literal \<open>0.1\<close> is the rounding of one tenth.
\<close>

definition select_clause :: "(rat \<Rightarrow> rat) \<Rightarrow> int \<Rightarrow> int \<Rightarrow> string" where
  "select_clause rnd total_rows dup_count =
     (let dup_percentage = fdiv rnd dup_count total_rows
      in if dup_percentage < rnd (1 / 10) \<and> dup_count > 0 then ''SELECT DISTINCT *''
         else ''SELECT *'')"

text \<open>
  \<^verbatim>\<open>
  where_clause = ""
  if na_percentage < 0.1 and na_count > 0:
      not_null_conditions = [f"{field.name} IS NOT NULL" for field in table_ref.schema]
      where_clause = f"WHERE {' AND '.join(not_null_conditions)}"
  \<close>
\<close>

definition where_clause :: "(rat \<Rightarrow> rat) \<Rightarrow> int \<Rightarrow> int \<Rightarrow> string list \<Rightarrow> string" where
  "where_clause rnd total_rows na_count schema =
     (let na_percentage = fdiv rnd na_count total_rows
      in if na_percentage < rnd (1 / 10) \<and> na_count > 0
         then ''WHERE '' @ py_join '' AND '' (map (\<lambda>n. n @ '' IS NOT NULL'') schema)
         else [])"

definition cleaning_query ::
  "(rat \<Rightarrow> rat) \<Rightarrow> string \<Rightarrow> int \<Rightarrow> int \<Rightarrow> int \<Rightarrow> string list \<Rightarrow> string" where
  "cleaning_query rnd source_table total_rows na_count dup_count schema =
     select_clause rnd total_rows dup_count @ '' '' @
     (''FROM `'' @ source_table @ ''`'') @ '' '' @
     where_clause rnd total_rows na_count schema"

text \<open>
  What the store makes of these statements. A table is the list of its rows, a row the
  list of its cells in the order of the schema, with \<open>None\<close> for NULL. The first count
  query counts the rows with a NULL in some column, the second one the rows beyond the
  first of each value (\<open>COUNT(*) - COUNT(DISTINCT TO_JSON_STRING(t))\<close>). The copy
  statement keeps the rows without any NULL when it has its \<open>WHERE\<close> clause, which
  names every column, and then one row of each value when it selects \<open>DISTINCT\<close>.
\<close>

type_synonym table_row = "val option list"

definition na_count_of :: "table_row list \<Rightarrow> int" where
  "na_count_of rows = int (length (filter (\<lambda>r. None \<in> set r) rows))"

definition dup_count_of :: "table_row list \<Rightarrow> int" where
  "dup_count_of rows = int (length rows) - int (length (remdups rows))"

definition selected_rows :: "string \<Rightarrow> string \<Rightarrow> table_row list \<Rightarrow> table_row list" where
  "selected_rows select_cl where_cl rows =
     (let kept = (if where_cl = [] then rows else filter (\<lambda>r. None \<notin> set r) rows)
      in if select_cl = ''SELECT DISTINCT *'' then remdups kept else kept)"

definition destination_rows :: "(rat \<Rightarrow> rat) \<Rightarrow> string list \<Rightarrow> table_row list \<Rightarrow> table_row list" where
  "destination_rows rnd schema rows =
     selected_rows (select_clause rnd (int (length rows)) (dup_count_of rows))
       (where_clause rnd (int (length rows)) (na_count_of rows) schema) rows"

text \<open>
  A table of 25 rows: one row 15 times, 8 rows once, and a row with a NULL twice. It has
  15 duplicate rows, which is 60%, and 2 rows with a NULL, which is 8%.
\<close>

definition example_table :: "table_row list" where
  "example_table =
     replicate 15 [Some (IntV 0), Some (StrV ''a'')] @
     map (\<lambda>i. [Some (IntV (int i)), Some (StrV ''b'')]) [1..<9] @
     replicate 2 [None, Some (StrV ''c'')]"

text \<open>
  \<^verbatim>\<open>
  def clean_bq_table(event, context):
      payload = json.loads(base64.b64decode(event['data']).decode('utf-8'))
      ...
      source_table = f"{project_id}.{dataset_id}.{table_id}"
      try:
          table_ref = client.get_table(source_table)
          total_rows = table_ref.num_rows
          if total_rows == 0:
              return
          null_conditions = [f"{field.name} IS NULL" for field in table_ref.schema]
          na_count = client.query(na_query).to_dataframe().iloc[0]['na_count']
          na_percentage = na_count / total_rows
          dup_count = client.query(dup_query).to_dataframe().iloc[0]['dup_count']
          dup_percentage = dup_count / total_rows
          timestamp = datetime.utcnow().strftime("%Y%m%d_%H%M%S")
          new_table_id = f"{table_id}_cleaned_{timestamp}"
          destination = f"{project_id}.{dataset_id}.{new_table_id}"
          ...
          cleaning_query = f"{select_clause} {from_clause} {where_clause}"
          job_config = bigquery.QueryJobConfig(destination=destination)
          job = client.query(cleaning_query, job_config=job_config)
          job.result()
          final_table = client.get_table(destination)
          ...
      except Exception as e:
          raise e
  \<close>
\<close>

definition clean_bq_table ::
  "(rat \<Rightarrow> rat) \<Rightarrow> env \<Rightarrow> payload \<Rightarrow> history \<Rightarrow> (exn + unit) \<times> history" where
  "clean_bq_table rnd e p h =
     (let source_table = project_id p @ ''.'' @ dataset_id p @ ''.'' @ table_id p
      in case get_table e source_table h of
           (t, h1) \<Rightarrow>
             (case t of
                Inl ex \<Rightarrow> (Inl ex, h1)
              | Inr table_ref \<Rightarrow>
                  (let total_rows = num_rows table_ref
                   in if total_rows = 0 then (Inr (), h1)
                      else
                        (case query e (NaCountSql source_table
                                         (map (\<lambda>n. n @ '' IS NULL'') (schema_fields table_ref)))
                                None h1 of
                           (n, h2) \<Rightarrow>
                             (case (case n of Inl ex \<Rightarrow> Inl ex
                                           | Inr rows \<Rightarrow> first_count rows ''na_count'') of
                                Inl ex \<Rightarrow> (Inl ex, h2)
                              | Inr na_count \<Rightarrow>
                                  (case query e (DupCountSql source_table) None h2 of
                                     (d, h3) \<Rightarrow>
                                       (case (case d of Inl ex \<Rightarrow> Inl ex
                                                     | Inr rows \<Rightarrow> first_count rows ''dup_count'') of
                                          Inl ex \<Rightarrow> (Inl ex, h3)
                                        | Inr dup_count \<Rightarrow>
                                            (let timestamp = utcnow e h3;
                                                 new_table_id = table_id p @ ''_cleaned_'' @ timestamp;
                                                 destination = project_id p @ ''.'' @ dataset_id p
                                                                 @ ''.'' @ new_table_id
                                             in case query e
                                                       (Statement (cleaning_query rnd source_table
                                                          total_rows na_count dup_count
                                                          (schema_fields table_ref)))
                                                       (Some destination) h3 of
                                                  (j, h4) \<Rightarrow>
                                                    (case j of
                                                       Inl ex \<Rightarrow> (Inl ex, h4)
                                                     | Inr rows \<Rightarrow>
                                                         (case get_table e destination h4 of
                                                            (f, h5) \<Rightarrow>
                                                              (case f of
                                                                 Inl ex \<Rightarrow> (Inl ex, h5)
                                                               | Inr final_table \<Rightarrow>
                                                                   (Inr (), h5))))))))))))"

section \<open>Observing an invocation\<close>

text \<open>
  The calls that can change the rows of a table: load jobs and queries. Looking a
  dataset or a table up, creating a dataset, downloading an object and sleeping cannot.
\<close>

definition changes_tables :: "call \<Rightarrow> bool" where
  "changes_tables c =
     (case c of LoadTableFromUri uri t s w \<Rightarrow> True | Query q d \<Rightarrow> True | _ \<Rightarrow> False)"

text \<open>
  A small store to run the functions on concrete inputs. A dataset is visible when it
  is listed as visible or this invocation has created it; creating a dataset that is
  visible, or that exists without being visible yet (another invocation has just
  created it), raises \<open>Conflict\<close>. Tables are fixed, with their row counts; queries are
  answered by the given function.
\<close>

definition example_env ::
  "string list \<Rightarrow> string list \<Rightarrow> (string \<times> int) list \<Rightarrow> (sql \<Rightarrow> exn + row list) \<Rightarrow> env" where
  "example_env visible existing tables answers =
     \<lparr>project = ''proj'',
      get_dataset_r = (\<lambda>h d. if d \<in> set visible \<or> CreateDataset d \<in> set h
                              then Inr () else Inl NotFound),
      create_dataset_r = (\<lambda>h d. if d \<in> set visible \<or> d \<in> set existing \<or>
                                    CreateDataset d \<in> set h
                                 then Inl Conflict else Inr ()),
      get_table_r = (\<lambda>h t. case map_of tables t of
                               None \<Rightarrow> Inl NotFound
                             | Some n \<Rightarrow> Inr \<lparr>num_rows = n, schema_fields = [''id'', ''email'']\<rparr>),
      load_r = (\<lambda>h uri t s w. Inr []),
      query_r = (\<lambda>h q destination. answers q),
      download_r = (\<lambda>h b f. Inr ''id,email''),
      csv_reader = (\<lambda>content. [[''id'', ''email''], [''1'', ''a@b.c'']]),
      utcnow = (\<lambda>h. ''20250101_000000'')\<rparr>"

text \<open>Answers of the example store to the count queries of \<open>clean_bq_table\<close>.\<close>

definition count_answers :: "int \<Rightarrow> int \<Rightarrow> sql \<Rightarrow> exn + row list" where
  "count_answers na_count dup_count q =
     (case q of
        NaCountSql t conds \<Rightarrow> Inr [[''na_count'' \<mapsto> IntV na_count]]
      | DupCountSql t \<Rightarrow> Inr [[''dup_count'' \<mapsto> IntV dup_count]]
      | _ \<Rightarrow> Inr [])"

text \<open>Answers to the validation query, and a store whose queries fail.\<close>

definition validation_answers :: "int \<Rightarrow> int \<Rightarrow> sql \<Rightarrow> exn + row list" where
  "validation_answers current change q =
     Inr [[''current_row_count'' \<mapsto> IntV current, ''row_count_change'' \<mapsto> IntV change]]"

definition failing_answers :: "sql \<Rightarrow> exn + row list" where
  "failing_answers q = Inl OtherError"

section \<open>Properties of the Request Router\<close>

lemma py_split1_length:
  "sep \<noteq> [] \<Longrightarrow> length (py_split1 sep s) = 1 \<or> length (py_split1 sep s) = 2"
  by (induction s) (auto split: list.splits)

lemma py_split1_pieces: "sep \<noteq> [] \<Longrightarrow> py_split1 sep s = [a, b] \<Longrightarrow> s = a @ sep @ b"
proof (induction s arbitrary: a)
  case Nil
  then show ?case by simp
next
  case (Cons c cs)
  show ?case
  proof (cases "take (length sep) (c # cs) = sep")
    case True
    then have "a = []" "b = drop (length sep) (c # cs)" using Cons.prems by simp_all
    then show ?thesis using True by (metis append_Nil append_take_drop_id)
  next
    case False
    then obtain a' where a': "py_split1 sep cs = [a', b]" "a = c # a'"
      using Cons.prems by (auto split: list.splits)
    then show ?thesis using Cons.IH [OF Cons.prems(1) a'(1)] by simp
  qed
qed

lemma py_split_length: "length (py_split c s) = Suc (count_list s c)"
  by (induction s) (auto split: list.splits)

lemma py_join_py_split: "py_join [c] (py_split c s) = s"
proof (induction s)
  case Nil
  then show ?case by simp
next
  case (Cons x xs)
  obtain p ps where ps: "py_split c xs = p # ps"
    using py_split_length [of c xs] by (cases "py_split c xs") auto
  show ?case
  proof (cases "x = c")
    case True
    then show ?thesis using Cons ps by simp
  next
    case False
    then show ?thesis using Cons ps by (cases ps) auto
  qed
qed

text \<open>
  The token counts decide: the router raises exactly when \<open>"__"\<close> does not occur, or the
  text before its first occurrence does not hold exactly two \<open>"-"\<close>; the text of the
  mode plays no role. When it returns, the name is the four parts put together again.
\<close>

lemma parse_filename_raises_iff:
  "parse_filename file_name = Inl malformed_request \<longleftrightarrow>
     \<not> (length (py_split1 ''__'' file_name) = 2 \<and>
        count_list (hd (py_split1 ''__'' file_name)) (CHR ''-'') = 2)"
proof (cases "py_split1 ''__'' file_name")
  case Nil
  then show ?thesis by (simp add: parse_filename_def)
next
  case (Cons meta rest)
  have len: "length (py_split (CHR ''-'') meta) = Suc (count_list meta (CHR ''-''))"
    by (rule py_split_length)
  show ?thesis
  proof (cases rest)
    case Nil
    then show ?thesis using Cons by (simp add: parse_filename_def)
  next
    case (Cons f rest')
    note r = Cons
    show ?thesis
    proof (cases rest')
      case Nil
      then show ?thesis
        using \<open>py_split1 ''__'' file_name = meta # rest\<close> r len
        by (auto simp: parse_filename_def split: list.splits)
    next
      case (Cons g rest'')
      then show ?thesis
        using \<open>py_split1 ''__'' file_name = meta # rest\<close> r
        by (simp add: parse_filename_def)
    qed
  qed
qed

lemma parse_filename_returns:
  assumes "parse_filename file_name = Inr (d, t, mode, f)"
  shows "\<exists>m. mode = py_lower m \<and> file_name = d @ ''-'' @ t @ ''-'' @ m @ ''__'' @ f"
proof -
  obtain meta where s1: "py_split1 ''__'' file_name = [meta, f]"
    using assms by (auto simp: parse_filename_def split: list.splits)
  obtain m where s2: "py_split (CHR ''-'') meta = [d, t, m]" and m: "mode = py_lower m"
    using assms s1 by (auto simp: parse_filename_def split: list.splits)
  have "file_name = meta @ ''__'' @ f" using py_split1_pieces [OF _ s1] by simp
  moreover have "meta = d @ ''-'' @ t @ ''-'' @ m"
    using py_join_py_split [of "CHR ''-''" meta] s2 by simp
  ultimately show ?thesis using m by auto
qed

text \<open>
  Claim C1. The claim has the router raise when the mode is not \<open>create\<close> or \<open>append\<close>.
  On the well-formed name \<open>ds-tbl-replace__f.csv\<close> the router returns the four
  components, with the mode \<open>replace\<close>, and does not raise.
\<close>

theorem parse_filename_unvalidated_mode:
  "parse_filename ''ds-tbl-replace__f.csv'' = Inr (''ds'', ''tbl'', ''replace'', ''f.csv'') \<and>
   ''replace'' \<notin> set [''create'', ''append'']"
  by code_simp

section \<open>Histories of the load path\<close>

lemma verify_table_load_loop_history:
  "\<exists>rest. snd (verify_table_load_loop e table_ref mx delay atts h) = h @ rest"
proof (induction atts arbitrary: h)
  case Nil
  then show ?case by simp
next
  case (Cons a atts)
  obtain rest where r:
    "snd (verify_table_load_loop e table_ref mx delay atts (sleep delay (h @ [GetTable table_ref])))
       = sleep delay (h @ [GetTable table_ref]) @ rest"
    using Cons.IH by blast
  show ?case
    using r by (auto simp: get_table_def sleep_def split: sum.splits)
qed

lemma load_csv_to_bigquery_first_call:
  "\<exists>rest. snd (load_csv_to_bigquery e uri table_ref schema mode h)
      = h @ LoadTableFromUri uri table_ref schema (write_disposition_of mode) # rest"
proof -
  obtain rest where r:
    "snd (verify_table_load e table_ref 5 30
            (h @ [LoadTableFromUri uri table_ref schema (write_disposition_of mode)]))
       = (h @ [LoadTableFromUri uri table_ref schema (write_disposition_of mode)]) @ rest"
    unfolding verify_table_load_def using verify_table_load_loop_history by blast
  show ?thesis using r
    by (auto simp: load_csv_to_bigquery_def load_table_from_uri_def split: sum.splits prod.splits)
qed

lemma get_row_count_history:
  "snd (get_row_count e table_ref h) = h @ [Query (RowCountSql table_ref) None]"
  by (simp add: get_row_count_def query_def split: sum.splits)

lemma validate_data_integrity_history:
  "\<exists>rest. snd (validate_data_integrity e table_ref fs h) = h @ rest"
  by (simp add: validate_data_integrity_def query_def split: sum.splits list.splits)

lemma run_data_quality_checks_history:
  "\<exists>rest. snd (run_data_quality_checks e table_ref cf h) = h @ rest"
proof -
  obtain n where g: "get_row_count e table_ref h = (n, h @ [Query (RowCountSql table_ref) None])"
    using get_row_count_history [of e table_ref h]
    by (cases "get_row_count e table_ref h") simp
  obtain ok rest where v:
    "validate_data_integrity e table_ref cf (h @ [Query (RowCountSql table_ref) None])
       = (ok, (h @ [Query (RowCountSql table_ref) None]) @ rest)"
    using validate_data_integrity_history [of e table_ref cf "h @ [Query (RowCountSql table_ref) None]"]
    by (cases "validate_data_integrity e table_ref cf (h @ [Query (RowCountSql table_ref) None])") auto
  show ?thesis
    unfolding run_data_quality_checks_def g using v by simp
qed

lemma gcs_to_bq_load_result:
  "\<exists>rest. gcs_to_bq_load e bucket_name name table_ref schema cf mode h =
     (Inr (), h @ LoadTableFromUri (''gs://'' @ bucket_name @ ''/'' @ name) table_ref schema
                    (write_disposition_of mode) # rest)"
proof -
  define uri where "uri = ''gs://'' @ bucket_name @ ''/'' @ name"
  define h1 where "h1 = snd (load_csv_to_bigquery e uri table_ref schema mode h)"
  obtain rest where r:
    "h1 = h @ LoadTableFromUri uri table_ref schema (write_disposition_of mode) # rest"
    unfolding h1_def using load_csv_to_bigquery_first_call [of e uri table_ref schema mode h] by auto
  obtain loaded where l: "load_csv_to_bigquery e uri table_ref schema mode h = (loaded, h1)"
    unfolding h1_def by (cases "load_csv_to_bigquery e uri table_ref schema mode h") simp
  obtain ok rest2 where q: "run_data_quality_checks e table_ref cf h1 = (ok, h1 @ rest2)"
    using run_data_quality_checks_history [of e table_ref cf h1]
    by (cases "run_data_quality_checks e table_ref cf h1") auto
  have "\<exists>rest. gcs_to_bq_load e bucket_name name table_ref schema cf mode h =
     (Inr (), h @ LoadTableFromUri uri table_ref schema (write_disposition_of mode) # rest)"
    unfolding gcs_to_bq_load_def Let_def uri_def [symmetric] l
    using q r by auto
  then show ?thesis unfolding uri_def .
qed

section \<open>Unrecognized modes\<close>

text \<open>
  Claim C10. Whenever the name splits at \<open>"__"\<close> and its metadata segment splits into
  exactly three tokens, \<open>parse_filename\<close> returns, whatever the mode token is: the mode
  is only lowercased. In the load path every mode other than \<open>create\<close> gives the write
  disposition \<open>WRITE_APPEND\<close>: the load job that \<open>load_csv_to_bigquery\<close> submits carries
  it, and so does the one \<open>gcs_to_bq\<close> submits for such a name once the schema is
  inferred and the dataset is there. A name with the mode \<open>replace\<close> is loaded as an
  append.
\<close>

theorem unrecognized_mode_loads_as_append:
  assumes "py_split1 ''__'' name = [meta, actual_file]"
    and "py_split (CHR ''-'') meta = [d, t, m]"
  shows "parse_filename name = Inr (d, t, py_lower m, actual_file) \<and>
         (py_lower m \<noteq> ''create'' \<longrightarrow>
            write_disposition_of (py_lower m) = WRITE_APPEND \<and>
            (\<exists>rest. snd (load_csv_to_bigquery e uri table_ref schema (py_lower m) h0) =
                      h0 @ LoadTableFromUri uri table_ref schema WRITE_APPEND # rest) \<and>
            (py_endswith name ''.csv'' \<longrightarrow>
             process_csv_schema e bucket name 100 h = (Some (cf, sch, tr), h1) \<longrightarrow>
             cf \<noteq> [] \<longrightarrow>
             create_dataset_if_not_exists e (project e) d h1 = (Inr (Some True), h2) \<longrightarrow>
             (\<exists>rest. gcs_to_bq e (bucket, name) h =
                (Inr (), h2 @ LoadTableFromUri (''gs://'' @ bucket @ ''/'' @ name)
                                (project e @ ''.'' @ d @ ''.'' @ t) sch WRITE_APPEND # rest))))"
proof -
  have p: "parse_filename name = Inr (d, t, py_lower m, actual_file)"
    using assms by (simp add: parse_filename_def)
  have wd: "py_lower m \<noteq> ''create'' \<Longrightarrow> write_disposition_of (py_lower m) = WRITE_APPEND"
    by (simp add: write_disposition_of_def)
  have ld: "py_lower m \<noteq> ''create'' \<Longrightarrow>
      \<exists>rest. snd (load_csv_to_bigquery e uri table_ref schema (py_lower m) h0) =
                      h0 @ LoadTableFromUri uri table_ref schema WRITE_APPEND # rest"
    using load_csv_to_bigquery_first_call [of e uri table_ref schema "py_lower m" h0] wd by simp
  have g: "\<exists>rest. gcs_to_bq e (bucket, name) h =
                (Inr (), h2 @ LoadTableFromUri (''gs://'' @ bucket @ ''/'' @ name)
                                (project e @ ''.'' @ d @ ''.'' @ t) sch WRITE_APPEND # rest)"
    if "py_lower m \<noteq> ''create''" "py_endswith name ''.csv''"
      "process_csv_schema e bucket name 100 h = (Some (cf, sch, tr), h1)" "cf \<noteq> []"
      "create_dataset_if_not_exists e (project e) d h1 = (Inr (Some True), h2)"
  proof -
    have "gcs_to_bq e (bucket, name) h =
            gcs_to_bq_load e bucket name (project e @ ''.'' @ d @ ''.'' @ t) sch cf (py_lower m) h2"
      using that p by (simp add: gcs_to_bq_def)
    then show ?thesis
      using gcs_to_bq_load_result [of e bucket name "project e @ ''.'' @ d @ ''.'' @ t" sch cf "py_lower m" h2]
        wd that(1) by simp
  qed
  show ?thesis using p wd ld g by blast
qed

text \<open>The schema the example store's file gives.\<close>

lemma example_schema:
  "process_csv_schema (example_env visible existing tables answers) bucket name 100 h =
     (Some ([''id'', ''email''], [(''id'', BOOLEAN), (''email'', STRING)],
            [''id'' \<mapsto> BOOLEAN, ''email'' \<mapsto> STRING]),
      h @ [DownloadAsText bucket name])"
proof -
  have s: "sample_rows_of 100 [[''1'', ''a@b.c'']] = [[''1'', ''a@b.c'']]" by code_simp
  have z: "zip_star [[''1'', ''a@b.c'']] = [[''1''], [''a@b.c'']]" by code_simp
  have c: "clean_column ''id'' = ''id''" "clean_column ''email'' = ''email''" by code_simp+
  have d: "detect_column_type [Some ''1''] = BOOLEAN" "detect_column_type [Some ''a@b.c''] = STRING"
    by code_simp+
  show ?thesis
    by (simp add: process_csv_schema_def download_as_text_def example_env_def s z c d)
qed

theorem unrecognized_mode_loads_as_append_witness:
  "py_split1 ''__'' ''ds-tbl-replace__f.csv'' = [''ds-tbl-replace'', ''f.csv''] \<and>
   py_split (CHR ''-'') ''ds-tbl-replace'' = [''ds'', ''tbl'', ''replace''] \<and>
   parse_filename ''ds-tbl-replace__f.csv'' = Inr (''ds'', ''tbl'', ''replace'', ''f.csv'') \<and>
   write_disposition_of ''replace'' = WRITE_APPEND \<and>
   py_endswith ''ds-tbl-replace__f.csv'' ''.csv'' \<and>
   (\<exists>rest. gcs_to_bq (example_env [''proj.ds''] [] [] (\<lambda>q. Inr []))
              (''bkt'', ''ds-tbl-replace__f.csv'') [] =
      (Inr (), [DownloadAsText ''bkt'' ''ds-tbl-replace__f.csv'', GetDataset ''proj.ds'',
                LoadTableFromUri ''gs://bkt/ds-tbl-replace__f.csv'' ''proj.ds.tbl''
                  [(''id'', BOOLEAN), (''email'', STRING)] WRITE_APPEND] @ rest))"
proof -
  let ?e = "example_env [''proj.ds''] [] [] (\<lambda>q. Inr [])"
  let ?h1 = "[DownloadAsText ''bkt'' ''ds-tbl-replace__f.csv'']"
  have s1: "py_split1 ''__'' ''ds-tbl-replace__f.csv'' = [''ds-tbl-replace'', ''f.csv'']"
    by code_simp
  have s2: "py_split (CHR ''-'') ''ds-tbl-replace'' = [''ds'', ''tbl'', ''replace'']"
    by code_simp
  have lo: "py_lower ''replace'' = ''replace''" by code_simp
  have csv: "py_endswith ''ds-tbl-replace__f.csv'' ''.csv''" by code_simp
  have sc: "process_csv_schema ?e ''bkt'' ''ds-tbl-replace__f.csv'' 100 [] =
     (Some ([''id'', ''email''], [(''id'', BOOLEAN), (''email'', STRING)],
            [''id'' \<mapsto> BOOLEAN, ''email'' \<mapsto> STRING]), ?h1)"
    using example_schema [of "[''proj.ds'']" "[]" "[]" "\<lambda>q. Inr []" "''bkt''" "''ds-tbl-replace__f.csv''" "[]"]
    by simp
  have pr: "project ?e = ''proj''" by (simp add: example_env_def)
  have ds: "create_dataset_if_not_exists ?e (project ?e) ''ds'' ?h1 =
              (Inr (Some True), ?h1 @ [GetDataset ''proj.ds''])"
    by (simp add: create_dataset_if_not_exists_def get_dataset_def example_env_def)
  show ?thesis
    using unrecognized_mode_loads_as_append [OF s1 s2, of ?e _ _ _ _ "''bkt''" "[]"
        "[''id'', ''email'']" "[(''id'', BOOLEAN), (''email'', STRING)]"
        "[''id'' \<mapsto> BOOLEAN, ''email'' \<mapsto> STRING]" ?h1 "?h1 @ [GetDataset ''proj.ds'']"]
      s1 s2 lo csv sc ds pr
    by simp
qed

section \<open>Properties of the Schema Inference Engine\<close>

lemma int_count_loop_takeWhile:
  "int_count_loop vs n = n + length (takeWhile (\<lambda>v. CHR ''.'' \<notin> set v \<and> int_parses v) vs)"
  by (induction vs arbitrary: n) auto

lemma float_count_loop_takeWhile:
  "float_count_loop vs n = n + length (takeWhile float_parses vs)"
  by (induction vs arbitrary: n) auto

lemma length_takeWhile_eq_iff: "length (takeWhile P xs) = length xs \<longleftrightarrow> list_all P xs"
proof (induction xs)
  case Nil
  then show ?case by simp
next
  case (Cons x xs)
  have "length (takeWhile P xs) \<le> length xs" by (rule length_takeWhile_le)
  then show ?case using Cons by auto
qed

lemma int_count_all:
  "int_count_loop vs 0 = length vs \<longleftrightarrow> list_all (\<lambda>v. CHR ''.'' \<notin> set v \<and> int_parses v) vs"
  by (simp add: int_count_loop_takeWhile length_takeWhile_eq_iff)

lemma float_count_all:
  "float_count_loop vs 0 = length vs \<longleftrightarrow> list_all float_parses vs"
  by (simp add: float_count_loop_takeWhile length_takeWhile_eq_iff)

lemma empty_not_classified:
  "\<not> bool_pattern_match []" "\<not> int_parses []" "\<not> float_parses []"
  by (simp_all add: bool_pattern_match_def py_lower_def bool_words_def int_parses_def strip_sign_def
       float_parses_def float_plain_def exponent_ok_def)

lemma non_null_blank:
  assumes "list_all (\<lambda>v. case v of None \<Rightarrow> True | Some s \<Rightarrow> py_strip s = []) values"
  shows "list_all (\<lambda>s. s = []) (non_null_of values)"
  using assms by (induction "values") (auto simp: non_null_of_def split: option.splits)

text \<open>
  Claim C2. With the sampled values that are neither \<open>None\<close> nor the empty string,
  stripped, \<open>detect_column_type\<close> answers by ordered precedence: \<open>BOOLEAN\<close> when each
  of them matches the lexical set in any case; else \<open>INT64\<close> when each holds no decimal
  point and parses as an integer; else \<open>FLOAT64\<close> when each parses as a float; else
  \<open>STRING\<close>. The values \<open>007, 042\<close> give \<open>INT64\<close>, the values \<open>3, 4.5, 6\<close> give
  \<open>FLOAT64\<close>, and a column whose values are all null or blank gives \<open>STRING\<close>.
\<close>

theorem detect_column_type_precedence:
  "detect_column_type values =
     (if non_null_of values = [] then STRING
      else if list_all bool_pattern_match (non_null_of values) then BOOLEAN
      else if list_all (\<lambda>v. CHR ''.'' \<notin> set v \<and> int_parses v) (non_null_of values) then INT64
      else if list_all float_parses (non_null_of values) then FLOAT64
      else STRING) \<and>
   detect_column_type [Some ''007'', Some ''042''] = INT64 \<and>
   detect_column_type [Some ''3'', Some ''4.5'', Some ''6''] = FLOAT64 \<and>
   (list_all (\<lambda>v. case v of None \<Rightarrow> True | Some s \<Rightarrow> py_strip s = []) values \<longrightarrow>
      detect_column_type values = STRING)"
proof -
  have nn: "values = [] \<Longrightarrow> non_null_of values = []" by (simp add: non_null_of_def)
  have a: "detect_column_type values =
     (if non_null_of values = [] then STRING
      else if list_all bool_pattern_match (non_null_of values) then BOOLEAN
      else if list_all (\<lambda>v. CHR ''.'' \<notin> set v \<and> int_parses v) (non_null_of values) then INT64
      else if list_all float_parses (non_null_of values) then FLOAT64
      else STRING)"
    using nn by (simp add: detect_column_type_def Let_def int_count_all float_count_all)
  have b: "detect_column_type [Some ''007'', Some ''042''] = INT64" by code_simp
  have c: "detect_column_type [Some ''3'', Some ''4.5'', Some ''6''] = FLOAT64" by code_simp
  have d: "detect_column_type values = STRING"
    if "list_all (\<lambda>v. case v of None \<Rightarrow> True | Some s \<Rightarrow> py_strip s = []) values"
  proof (cases "non_null_of values")
    case Nil
    then show ?thesis using a by simp
  next
    case (Cons s ss)
    then have "s = []" using non_null_blank [OF that] by simp
    then show ?thesis using a Cons empty_not_classified by simp
  qed
  show ?thesis using a b c d by blast
qed

theorem detect_column_type_precedence_witness:
  "list_all (\<lambda>v. case v of None \<Rightarrow> True | Some s \<Rightarrow> py_strip s = []) [None, Some ''  '', Some ''''] \<and>
   detect_column_type [None, Some ''  '', Some ''''] = STRING \<and>
   non_null_of [Some ''TRUE'', None, Some ''0'', Some '' yes ''] = [''TRUE'', ''0'', ''yes''] \<and>
   detect_column_type [Some ''TRUE'', None, Some ''0'', Some '' yes ''] = BOOLEAN"
proof -
  have h: "list_all (\<lambda>v. case v of None \<Rightarrow> True | Some s \<Rightarrow> py_strip s = [])
             [None, Some ''  '', Some '''']"
    by code_simp
  have n: "non_null_of [Some ''TRUE'', None, Some ''0'', Some '' yes ''] = [''TRUE'', ''0'', ''yes'']"
    by code_simp
  have b: "list_all bool_pattern_match [''TRUE'', ''0'', ''yes'']" by code_simp
  have imp: "list_all (\<lambda>v. case v of None \<Rightarrow> True | Some s \<Rightarrow> py_strip s = [])
               [None, Some ''  '', Some ''''] \<longrightarrow>
             detect_column_type [None, Some ''  '', Some ''''] = STRING"
    using detect_column_type_precedence [of "[None, Some ''  '', Some '''']"] by blast
  have d: "detect_column_type [None, Some ''  '', Some ''''] = STRING"
    using imp h by (rule mp)
  have e: "detect_column_type [Some ''TRUE'', None, Some ''0'', Some '' yes ''] =
     (if non_null_of [Some ''TRUE'', None, Some ''0'', Some '' yes ''] = [] then STRING
      else if list_all bool_pattern_match (non_null_of [Some ''TRUE'', None, Some ''0'', Some '' yes ''])
      then BOOLEAN
      else if list_all (\<lambda>v. CHR ''.'' \<notin> set v \<and> int_parses v)
                (non_null_of [Some ''TRUE'', None, Some ''0'', Some '' yes '']) then INT64
      else if list_all float_parses (non_null_of [Some ''TRUE'', None, Some ''0'', Some '' yes ''])
      then FLOAT64
      else STRING)"
    using detect_column_type_precedence [of "[Some ''TRUE'', None, Some ''0'', Some '' yes '']"]
    by blast
  have f: "detect_column_type [Some ''TRUE'', None, Some ''0'', Some '' yes ''] = BOOLEAN"
    unfolding e n using b by simp
  show ?thesis using h d n f by blast
qed

section \<open>Properties of the Cleaning Engine\<close>

lemma determine_cleaning_operations_field:
  "f \<in> field ` set (determine_cleaning_operations rnd fs quality_report config) \<longleftrightarrow>
     f \<in> set fs \<and>
     stats_get (case quality_report f of None \<Rightarrow> Map.empty | Some st \<Rightarrow> st) ''total_rows'' \<noteq> 0 \<and>
     min_issue_percentage config
        \<le> total_issues_pct_of rnd (case quality_report f of None \<Rightarrow> Map.empty | Some st \<Rightarrow> st) \<and>
     total_issues_pct_of rnd (case quality_report f of None \<Rightarrow> Map.empty | Some st \<Rightarrow> st)
        \<le> max_empty_percentage config \<and>
     operations_for config
        (empty_pct_of rnd (case quality_report f of None \<Rightarrow> Map.empty | Some st \<Rightarrow> st))
        (whitespace_pct_of rnd (case quality_report f of None \<Rightarrow> Map.empty | Some st \<Rightarrow> st)) \<noteq> []"
proof (induction fs)
  case Nil
  then show ?case by simp
next
  case (Cons g fs)
  show ?case
  proof (cases "g = f")
    case True
    then show ?thesis using Cons by (auto simp: Let_def)
  next
    case False
    then show ?thesis using Cons by (auto simp: Let_def)
  qed
qed

lemma operations_for_trim:
  "''trim'' \<in> set (operations config) \<Longrightarrow> operations_for config a b \<noteq> []"
  by (simp add: operations_for_def)

text \<open>
  Claim C3, as amended. For a listed column whose statistics have \<open>total_rows\<close> other
  than zero, the issue percentage is the sum of the empty and the whitespace
  percentages, and the column is selected exactly when that percentage lies between
  \<open>min_issue_percentage\<close> and \<open>max_empty_percentage\<close>, both bounds included, and at
  least one configured operation applies to it. With \<open>trim\<close> configured, as in the
  default configuration, an operation always applies and the bounds alone decide. A
  column above the maximum is never selected, and one without issues is never selected
  when the minimum is positive.
\<close>

theorem cleaning_selection_rule:
  assumes "quality_report f = Some stats"
    and "stats_get stats ''total_rows'' \<noteq> 0"
    and "f \<in> set fs"
  shows "total_issues_pct_of rnd stats = fadd rnd (empty_pct_of rnd stats) (whitespace_pct_of rnd stats) \<and>
    (f \<in> field ` set (determine_cleaning_operations rnd fs quality_report config) \<longleftrightarrow>
       min_issue_percentage config \<le> total_issues_pct_of rnd stats \<and>
       total_issues_pct_of rnd stats \<le> max_empty_percentage config \<and>
       operations_for config (empty_pct_of rnd stats) (whitespace_pct_of rnd stats) \<noteq> []) \<and>
    (''trim'' \<in> set (operations config) \<longrightarrow>
       (f \<in> field ` set (determine_cleaning_operations rnd fs quality_report config) \<longleftrightarrow>
          min_issue_percentage config \<le> total_issues_pct_of rnd stats \<and>
          total_issues_pct_of rnd stats \<le> max_empty_percentage config)) \<and>
    (max_empty_percentage config < total_issues_pct_of rnd stats \<longrightarrow>
       f \<notin> field ` set (determine_cleaning_operations rnd fs quality_report config)) \<and>
    (0 < min_issue_percentage config \<longrightarrow> total_issues_pct_of rnd stats = 0 \<longrightarrow>
       f \<notin> field ` set (determine_cleaning_operations rnd fs quality_report config))"
proof -
  have sel: "f \<in> field ` set (determine_cleaning_operations rnd fs quality_report config) \<longleftrightarrow>
       min_issue_percentage config \<le> total_issues_pct_of rnd stats \<and>
       total_issues_pct_of rnd stats \<le> max_empty_percentage config \<and>
       operations_for config (empty_pct_of rnd stats) (whitespace_pct_of rnd stats) \<noteq> []"
    using assms determine_cleaning_operations_field [of f rnd fs quality_report config] by simp
  have tot: "total_issues_pct_of rnd stats = fadd rnd (empty_pct_of rnd stats) (whitespace_pct_of rnd stats)"
    by (simp add: total_issues_pct_of_def)
  show ?thesis
    using sel tot operations_for_trim [of config "empty_pct_of rnd stats" "whitespace_pct_of rnd stats"]
    by auto
qed

text \<open>
  The claim as first stated fails twice. With only \<open>nullify_empty\<close> configured, a
  column with one empty value in two rows has the issue percentage 50, on the inclusive
  maximum, yet is not selected: the operation asks for an empty percentage strictly below
  the maximum, so no operation applies. With the minimum set to 0, a column without any
  issue is selected. The numbers computed here are exact in binary64.
\<close>

theorem cleaning_selection_counterexample:
  "min_issue_percentage \<lparr>max_empty_percentage = 50, min_issue_percentage = 1,
                          operations = [''nullify_empty'']\<rparr>
     \<le> total_issues_pct_of id [''total_rows'' \<mapsto> 2, ''empty_string_count'' \<mapsto> 1] \<and>
   total_issues_pct_of id [''total_rows'' \<mapsto> 2, ''empty_string_count'' \<mapsto> 1]
     \<le> max_empty_percentage \<lparr>max_empty_percentage = 50, min_issue_percentage = 1,
                               operations = [''nullify_empty'']\<rparr> \<and>
   determine_cleaning_operations id [''email'']
       [''email'' \<mapsto> [''total_rows'' \<mapsto> 2, ''empty_string_count'' \<mapsto> 1]]
       \<lparr>max_empty_percentage = 50, min_issue_percentage = 1, operations = [''nullify_empty'']\<rparr>
     = [] \<and>
   total_issues_pct_of id [''total_rows'' \<mapsto> 2] = 0 \<and>
   determine_cleaning_operations id [''email''] [''email'' \<mapsto> [''total_rows'' \<mapsto> 2]]
       \<lparr>max_empty_percentage = 50, min_issue_percentage = 0, operations = [''trim'']\<rparr>
     = [\<lparr>field = ''email'', field_operations = [TRIM], issues_pct = 0\<rparr>]"
  by (simp add: total_issues_pct_of_def empty_pct_of_def whitespace_pct_of_def fadd_def fmul_def
        fdiv_def stats_get_def operations_for_def)

theorem cleaning_selection_rule_witness:
  "[''email'' \<mapsto> [''total_rows'' \<mapsto> 1000 :: int, ''empty_string_count'' \<mapsto> 60,
                     ''whitespace_only_count'' \<mapsto> 5]] ''email''
     = Some [''total_rows'' \<mapsto> 1000, ''empty_string_count'' \<mapsto> 60, ''whitespace_only_count'' \<mapsto> 5] \<and>
   stats_get [''total_rows'' \<mapsto> 1000, ''empty_string_count'' \<mapsto> 60,
              ''whitespace_only_count'' \<mapsto> 5] ''total_rows'' \<noteq> 0 \<and>
   ''email'' \<in> set [''email''] \<and>
   ''trim'' \<in> set (operations get_default_config) \<and>
   total_issues_pct_of id [''total_rows'' \<mapsto> 1000, ''empty_string_count'' \<mapsto> 60,
                           ''whitespace_only_count'' \<mapsto> 5] = 13 / 2 \<and>
   min_issue_percentage get_default_config \<le> 13 / 2 \<and>
   13 / 2 \<le> max_empty_percentage get_default_config \<and>
   ''email'' \<in> field ` set (determine_cleaning_operations id [''email'']
       [''email'' \<mapsto> [''total_rows'' \<mapsto> 1000, ''empty_string_count'' \<mapsto> 60,
                          ''whitespace_only_count'' \<mapsto> 5]] get_default_config) \<and>
   stats_get [''total_rows'' \<mapsto> 10, ''empty_string_count'' \<mapsto> 6] ''total_rows'' \<noteq> 0 \<and>
   max_empty_percentage get_default_config
     < total_issues_pct_of id [''total_rows'' \<mapsto> 10, ''empty_string_count'' \<mapsto> 6] \<and>
   ''email'' \<notin> field ` set (determine_cleaning_operations id [''email'']
       [''email'' \<mapsto> [''total_rows'' \<mapsto> 10, ''empty_string_count'' \<mapsto> 6]] get_default_config) \<and>
   stats_get [''total_rows'' \<mapsto> 10] ''total_rows'' \<noteq> 0 \<and>
   0 < min_issue_percentage get_default_config \<and>
   total_issues_pct_of id [''total_rows'' \<mapsto> 10] = 0 \<and>
   ''email'' \<notin> field ` set (determine_cleaning_operations id [''email'']
       [''email'' \<mapsto> [''total_rows'' \<mapsto> 10]] get_default_config)"
proof -
  define s1 :: "string \<rightharpoonup> int" where
    "s1 = [''total_rows'' \<mapsto> 1000, ''empty_string_count'' \<mapsto> 60, ''whitespace_only_count'' \<mapsto> 5]"
  define s2 :: "string \<rightharpoonup> int" where "s2 = [''total_rows'' \<mapsto> 10, ''empty_string_count'' \<mapsto> 6]"
  define s3 :: "string \<rightharpoonup> int" where "s3 = [''total_rows'' \<mapsto> 10]"
  define cfg where "cfg = get_default_config"
  have q1: "[''email'' \<mapsto> s1] ''email'' = Some s1" by simp
  have q2: "[''email'' \<mapsto> s2] ''email'' = Some s2" by simp
  have q3: "[''email'' \<mapsto> s3] ''email'' = Some s3" by simp
  have t1: "stats_get s1 ''total_rows'' \<noteq> 0" by (simp add: stats_get_def s1_def)
  have t2: "stats_get s2 ''total_rows'' \<noteq> 0" by (simp add: stats_get_def s2_def)
  have t3: "stats_get s3 ''total_rows'' \<noteq> 0" by (simp add: stats_get_def s3_def)
  have m: "''email'' \<in> set [''email'']" by simp
  have i1: "total_issues_pct_of id s1 = 13 / 2"
    by (simp add: total_issues_pct_of_def empty_pct_of_def whitespace_pct_of_def fadd_def
          fmul_def fdiv_def stats_get_def s1_def)
  have i2: "total_issues_pct_of id s2 = 60"
    by (simp add: total_issues_pct_of_def empty_pct_of_def whitespace_pct_of_def fadd_def
          fmul_def fdiv_def stats_get_def s2_def)
  have i3: "total_issues_pct_of id s3 = 0"
    by (simp add: total_issues_pct_of_def empty_pct_of_def whitespace_pct_of_def fadd_def
          fmul_def fdiv_def stats_get_def s3_def)
  have c: "''trim'' \<in> set (operations cfg)"
    "min_issue_percentage cfg = 1" "max_empty_percentage cfg = 50"
    by (simp_all add: get_default_config_def cfg_def)
  have a1: "(''email'' \<in> field ` set (determine_cleaning_operations id [''email''] [''email'' \<mapsto> s1] cfg))
              = (min_issue_percentage cfg \<le> total_issues_pct_of id s1 \<and>
                 total_issues_pct_of id s1 \<le> max_empty_percentage cfg)"
    using cleaning_selection_rule [where quality_report = "[''email'' \<mapsto> s1]" and f = "''email''"
        and stats = s1 and fs = "[''email'']" and rnd = id and config = cfg, OF q1 t1 m]
      c(1) by blast
  have r1: "''email'' \<in> field ` set (determine_cleaning_operations id [''email''] [''email'' \<mapsto> s1] cfg)"
    unfolding a1 i1 c by simp
  have b2: "max_empty_percentage cfg < total_issues_pct_of id s2" unfolding i2 c by simp
  have r2: "''email'' \<notin> field ` set (determine_cleaning_operations id [''email''] [''email'' \<mapsto> s2] cfg)"
    using cleaning_selection_rule [where quality_report = "[''email'' \<mapsto> s2]" and f = "''email''"
        and stats = s2 and fs = "[''email'']" and rnd = id and config = cfg, OF q2 t2 m]
      b2 by blast
  have b3: "0 < min_issue_percentage cfg" unfolding c by simp
  have r3: "''email'' \<notin> field ` set (determine_cleaning_operations id [''email''] [''email'' \<mapsto> s3] cfg)"
    using cleaning_selection_rule [where quality_report = "[''email'' \<mapsto> s3]" and f = "''email''"
        and stats = s3 and fs = "[''email'']" and rnd = id and config = cfg, OF q3 t3 m]
      b3 i3 by blast
  have b1: "min_issue_percentage cfg \<le> 13 / 2" "13 / 2 \<le> max_empty_percentage cfg"
    unfolding c by simp_all
  have "[''email'' \<mapsto> s1] ''email'' = Some s1 \<and> stats_get s1 ''total_rows'' \<noteq> 0 \<and>
      ''email'' \<in> set [''email''] \<and> ''trim'' \<in> set (operations cfg) \<and>
      total_issues_pct_of id s1 = 13 / 2 \<and> min_issue_percentage cfg \<le> 13 / 2 \<and>
      13 / 2 \<le> max_empty_percentage cfg \<and>
      ''email'' \<in> field ` set (determine_cleaning_operations id [''email''] [''email'' \<mapsto> s1] cfg) \<and>
      stats_get s2 ''total_rows'' \<noteq> 0 \<and> max_empty_percentage cfg < total_issues_pct_of id s2 \<and>
      ''email'' \<notin> field ` set (determine_cleaning_operations id [''email''] [''email'' \<mapsto> s2] cfg) \<and>
      stats_get s3 ''total_rows'' \<noteq> 0 \<and> 0 < min_issue_percentage cfg \<and>
      total_issues_pct_of id s3 = 0 \<and>
      ''email'' \<notin> field ` set (determine_cleaning_operations id [''email''] [''email'' \<mapsto> s3] cfg)"
    using q1 t1 t2 t3 m i1 i3 c(1) r1 r2 r3 b1 b2 b3 by blast
  then show ?thesis unfolding s1_def s2_def s3_def cfg_def .
qed

section \<open>Properties of the Table Provisioner\<close>

text \<open>
  Claim C8. When the dataset is there, \<open>create_dataset_if_not_exists\<close> reports success
  after the one lookup, without a create call. When the lookup raises \<open>NotFound\<close> and the
  create call raises \<open>Conflict\<close>, it reports success as well. Against a store where a
  dataset that is visible stays visible, where a dataset this invocation has asked to
  create is visible, and where the two calls raise nothing but \<open>NotFound\<close> and
  \<open>Conflict\<close>, two invocations in a row both return \<open>True\<close> and neither raises.
\<close>

theorem create_dataset_if_not_exists_idempotent:
  "(get_dataset_r e h (p @ ''.'' @ d) = Inr () \<longrightarrow>
      create_dataset_if_not_exists e p d h = (Inr (Some True), h @ [GetDataset (p @ ''.'' @ d)])) \<and>
   (get_dataset_r e h (p @ ''.'' @ d) = Inl NotFound \<longrightarrow>
    create_dataset_r e (h @ [GetDataset (p @ ''.'' @ d)]) (p @ ''.'' @ d) = Inl Conflict \<longrightarrow>
      create_dataset_if_not_exists e p d h =
        (Inr (Some True), h @ [GetDataset (p @ ''.'' @ d), CreateDataset (p @ ''.'' @ d)])) \<and>
   ((\<forall>h'. get_dataset_r e h' (p @ ''.'' @ d) = Inr () \<or>
          get_dataset_r e h' (p @ ''.'' @ d) = Inl NotFound) \<longrightarrow>
    (\<forall>h'. CreateDataset (p @ ''.'' @ d) \<in> set h' \<longrightarrow> get_dataset_r e h' (p @ ''.'' @ d) = Inr ()) \<longrightarrow>
    (\<forall>h' h''. get_dataset_r e h' (p @ ''.'' @ d) = Inr () \<longrightarrow>
          get_dataset_r e (h' @ h'') (p @ ''.'' @ d) = Inr ()) \<longrightarrow>
    (\<forall>h'. create_dataset_r e h' (p @ ''.'' @ d) = Inr () \<or>
          create_dataset_r e h' (p @ ''.'' @ d) = Inl Conflict) \<longrightarrow>
      fst (create_dataset_if_not_exists e p d h) = Inr (Some True) \<and>
      fst (create_dataset_if_not_exists e p d (snd (create_dataset_if_not_exists e p d h)))
        = Inr (Some True))"
proof -
  define r where "r = p @ ''.'' @ d"
  have a: "create_dataset_if_not_exists e p d h = (Inr (Some True), h @ [GetDataset r])"
    if "get_dataset_r e h r = Inr ()" for h
    using that by (simp add: create_dataset_if_not_exists_def get_dataset_def r_def Let_def)
  have b: "create_dataset_if_not_exists e p d h = (Inr (Some True), h @ [GetDataset r, CreateDataset r])"
    if "get_dataset_r e h r = Inl NotFound" "create_dataset_r e (h @ [GetDataset r]) r = Inl Conflict"
    for h
    using that
    by (simp add: create_dataset_if_not_exists_def get_dataset_def create_dataset_def r_def Let_def)
  have c: "fst (create_dataset_if_not_exists e p d h) = Inr (Some True) \<and>
      fst (create_dataset_if_not_exists e p d (snd (create_dataset_if_not_exists e p d h)))
        = Inr (Some True)"
    if A1: "\<forall>h'. get_dataset_r e h' r = Inr () \<or> get_dataset_r e h' r = Inl NotFound"
      and A3: "\<forall>h'. CreateDataset r \<in> set h' \<longrightarrow> get_dataset_r e h' r = Inr ()"
      and A4: "\<forall>h' h''. get_dataset_r e h' r = Inr () \<longrightarrow> get_dataset_r e (h' @ h'') r = Inr ()"
      and A2: "\<forall>h'. create_dataset_r e h' r = Inr () \<or> create_dataset_r e h' r = Inl Conflict"
  proof -
    have once: "fst (create_dataset_if_not_exists e p d k) = Inr (Some True) \<and>
        get_dataset_r e (snd (create_dataset_if_not_exists e p d k)) r = Inr ()" for k
    proof (cases "get_dataset_r e k r = Inr ()")
      case True
      then show ?thesis using a [OF True] A4 by simp
    next
      case False
      then have nf: "get_dataset_r e k r = Inl NotFound" using A1 by blast
      let ?k2 = "k @ [GetDataset r, CreateDataset r]"
      show ?thesis
      proof (cases "create_dataset_r e (k @ [GetDataset r]) r = Inl Conflict")
        case True
        show ?thesis using b [OF nf True] A3 by simp
      next
        case False
        then have ok: "create_dataset_r e (k @ [GetDataset r]) r = Inr ()" using A2 by blast
        have vis: "get_dataset_r e ?k2 r = Inr ()" using A3 by simp
        have v: "verify_dataset_creation e r 5 30 ?k2 = (Inr (Some True), ?k2 @ [GetDataset r])"
          using vis by (simp add: verify_dataset_creation_def get_dataset_def upt_rec)
        have "create_dataset_if_not_exists e p d k = (Inr (Some True), ?k2 @ [GetDataset r])"
          using nf ok v
          by (simp add: create_dataset_if_not_exists_def get_dataset_def create_dataset_def r_def
                Let_def)
        then show ?thesis using A3 by simp
      qed
    qed
    show ?thesis
      using once [of h] a [of "snd (create_dataset_if_not_exists e p d h)"] by simp
  qed
  show ?thesis using a [of h] b [of h] c unfolding r_def by blast
qed

theorem create_dataset_if_not_exists_idempotent_witness:
  "get_dataset_r (example_env [''proj.ds''] [] [] (\<lambda>q. Inr [])) [] ''proj.ds'' = Inr () \<and>
   create_dataset_if_not_exists (example_env [''proj.ds''] [] [] (\<lambda>q. Inr [])) ''proj'' ''ds'' []
     = (Inr (Some True), [GetDataset ''proj.ds'']) \<and>
   get_dataset_r (example_env [] [''proj.ds''] [] (\<lambda>q. Inr [])) [] ''proj.ds'' = Inl NotFound \<and>
   create_dataset_r (example_env [] [''proj.ds''] [] (\<lambda>q. Inr [])) [GetDataset ''proj.ds'']
     ''proj.ds'' = Inl Conflict \<and>
   create_dataset_if_not_exists (example_env [] [''proj.ds''] [] (\<lambda>q. Inr [])) ''proj'' ''ds'' []
     = (Inr (Some True), [GetDataset ''proj.ds'', CreateDataset ''proj.ds'']) \<and>
   (\<forall>h'. get_dataset_r (example_env [] [] [] (\<lambda>q. Inr [])) h' ''proj.ds'' = Inr () \<or>
         get_dataset_r (example_env [] [] [] (\<lambda>q. Inr [])) h' ''proj.ds'' = Inl NotFound) \<and>
   (\<forall>h'. create_dataset_r (example_env [] [] [] (\<lambda>q. Inr [])) h' ''proj.ds'' = Inr () \<or>
         create_dataset_r (example_env [] [] [] (\<lambda>q. Inr [])) h' ''proj.ds'' = Inl Conflict) \<and>
   fst (create_dataset_if_not_exists (example_env [] [] [] (\<lambda>q. Inr [])) ''proj'' ''ds'' [])
     = Inr (Some True) \<and>
   fst (create_dataset_if_not_exists (example_env [] [] [] (\<lambda>q. Inr [])) ''proj'' ''ds''
          (snd (create_dataset_if_not_exists (example_env [] [] [] (\<lambda>q. Inr [])) ''proj'' ''ds'' [])))
     = Inr (Some True)"
proof -
  define e1 where "e1 = example_env [''proj.ds''] [] [] (\<lambda>q. Inr [])"
  define e2 where "e2 = example_env [] [''proj.ds''] [] (\<lambda>q. Inr [])"
  define e3 where "e3 = example_env [] [] [] (\<lambda>q. Inr [])"
  have r: "''proj'' @ ''.'' @ ''ds'' = ''proj.ds''" by simp
  have g1: "get_dataset_r e1 [] ''proj.ds'' = Inr ()" by (simp add: e1_def example_env_def)
  have g2: "get_dataset_r e2 [] ''proj.ds'' = Inl NotFound" by (simp add: e2_def example_env_def)
  have c2: "create_dataset_r e2 [GetDataset ''proj.ds''] ''proj.ds'' = Inl Conflict"
    by (simp add: e2_def example_env_def)
  have A1: "\<forall>h'. get_dataset_r e3 h' ''proj.ds'' = Inr () \<or> get_dataset_r e3 h' ''proj.ds'' = Inl NotFound"
    by (simp add: e3_def example_env_def)
  have A2: "\<forall>h'. create_dataset_r e3 h' ''proj.ds'' = Inr () \<or>
                 create_dataset_r e3 h' ''proj.ds'' = Inl Conflict"
    by (simp add: e3_def example_env_def)
  have A3: "\<forall>h'. CreateDataset ''proj.ds'' \<in> set h' \<longrightarrow> get_dataset_r e3 h' ''proj.ds'' = Inr ()"
    by (simp add: e3_def example_env_def)
  have A4: "\<forall>h' h''. get_dataset_r e3 h' ''proj.ds'' = Inr () \<longrightarrow>
                     get_dataset_r e3 (h' @ h'') ''proj.ds'' = Inr ()"
    by (simp add: e3_def example_env_def)
  have t1: "create_dataset_if_not_exists e1 ''proj'' ''ds'' [] = (Inr (Some True), [GetDataset ''proj.ds''])"
    using create_dataset_if_not_exists_idempotent [of e1 "[]" "''proj''" "''ds''"] g1
    unfolding r by simp
  have t2: "create_dataset_if_not_exists e2 ''proj'' ''ds'' []
              = (Inr (Some True), [GetDataset ''proj.ds'', CreateDataset ''proj.ds''])"
    using create_dataset_if_not_exists_idempotent [of e2 "[]" "''proj''" "''ds''"] g2 c2
    unfolding r by simp
  have t3: "fst (create_dataset_if_not_exists e3 ''proj'' ''ds'' []) = Inr (Some True) \<and>
      fst (create_dataset_if_not_exists e3 ''proj'' ''ds''
             (snd (create_dataset_if_not_exists e3 ''proj'' ''ds'' []))) = Inr (Some True)"
    using create_dataset_if_not_exists_idempotent [of e3 "[]" "''proj''" "''ds''"] A1 A2 A3 A4
    unfolding r by blast
  show ?thesis
    using g1 g2 c2 A1 A2 t1 t2 t3 unfolding e1_def e2_def e3_def by blast
qed

section \<open>Properties of the Load Orchestrator\<close>

lemma verify_table_load_loop_zero_rows:
  assumes "\<forall>h'. \<exists>info. get_table_r e h' table_ref = Inr info \<and> \<not> num_rows info > 0"
  shows "k < mx \<Longrightarrow>
    fst (verify_table_load_loop e table_ref mx delay [k..<mx] h) = Inr (Some True)"
proof (induction "mx - k" arbitrary: k h)
  case 0
  then show ?case by simp
next
  case (Suc n)
  obtain info where i: "get_table_r e h table_ref = Inr info" "\<not> num_rows info > 0"
    using assms by blast
  have u: "[k..<mx] = k # [Suc k..<mx]" using Suc.prems by (simp add: upt_conv_Cons)
  show ?case
  proof (cases "int k < int mx - 1")
    case True
    then have "Suc k < mx" by simp
    moreover have "n = mx - Suc k" using Suc.hyps(2) by simp
    ultimately have "fst (verify_table_load_loop e table_ref mx delay [Suc k..<mx]
                            (sleep delay (h @ [GetTable table_ref]))) = Inr (Some True)"
      using Suc.hyps(1) by blast
    then show ?thesis using i True by (simp add: u get_table_def)
  next
    case False
    then show ?thesis using i by (simp add: u get_table_def)
  qed
qed

lemma verify_table_load_loop_false:
  "fst (verify_table_load_loop e table_ref mx delay atts h) = Inr (Some False)
     \<Longrightarrow> \<exists>h'. get_table_r e h' table_ref = Inl NotFound"
proof (induction atts arbitrary: h)
  case Nil
  then show ?case by simp
next
  case (Cons a atts)
  then show ?case
    by (auto simp: get_table_def split: sum.splits if_splits)
qed

text \<open>
  Claim C9. When the table is there at every poll and its row count never rises above
  zero, \<open>verify_table_load\<close> returns \<open>True\<close> once its attempts are used up. It returns
  \<open>False\<close> only when a lookup raised \<open>NotFound\<close>, and it does return \<open>False\<close> when the
  first lookup raises \<open>NotFound\<close>.
\<close>

theorem verify_table_load_empty_is_success:
  "(0 < max_attempts \<longrightarrow>
      (\<forall>h'. \<exists>info. get_table_r e h' table_ref = Inr info \<and> \<not> num_rows info > 0) \<longrightarrow>
      fst (verify_table_load e table_ref max_attempts delay h) = Inr (Some True)) \<and>
   (fst (verify_table_load e table_ref max_attempts delay h) = Inr (Some False) \<longrightarrow>
      (\<exists>h'. get_table_r e h' table_ref = Inl NotFound)) \<and>
   (0 < max_attempts \<longrightarrow> get_table_r e h table_ref = Inl NotFound \<longrightarrow>
      verify_table_load e table_ref max_attempts delay h =
        (Inr (Some False), h @ [GetTable table_ref]))"
proof -
  have a: "fst (verify_table_load e table_ref max_attempts delay h) = Inr (Some True)"
    if "0 < max_attempts"
      "\<forall>h'. \<exists>info. get_table_r e h' table_ref = Inr info \<and> \<not> num_rows info > 0"
    unfolding verify_table_load_def
    using verify_table_load_loop_zero_rows [OF that(2) that(1)] .
  have b: "\<exists>h'. get_table_r e h' table_ref = Inl NotFound"
    if "fst (verify_table_load e table_ref max_attempts delay h) = Inr (Some False)"
    using that unfolding verify_table_load_def by (rule verify_table_load_loop_false)
  have c: "verify_table_load e table_ref max_attempts delay h =
        (Inr (Some False), h @ [GetTable table_ref])"
    if "0 < max_attempts" "get_table_r e h table_ref = Inl NotFound"
    using that by (simp add: verify_table_load_def upt_conv_Cons get_table_def)
  show ?thesis using a b c by blast
qed

theorem verify_table_load_empty_is_success_witness:
  "(0 :: nat) < 5 \<and>
   (\<forall>h'. \<exists>info. get_table_r (example_env [] [] [(''proj.ds.tbl'', 0)] (\<lambda>q. Inr [])) h' ''proj.ds.tbl''
                   = Inr info \<and> \<not> num_rows info > 0) \<and>
   fst (verify_table_load (example_env [] [] [(''proj.ds.tbl'', 0)] (\<lambda>q. Inr [])) ''proj.ds.tbl''
          5 30 []) = Inr (Some True) \<and>
   get_table_r (example_env [] [] [] (\<lambda>q. Inr [])) [] ''proj.ds.tbl'' = Inl NotFound \<and>
   verify_table_load (example_env [] [] [] (\<lambda>q. Inr [])) ''proj.ds.tbl'' 5 30 []
     = (Inr (Some False), [GetTable ''proj.ds.tbl'']) \<and>
   fst (verify_table_load (example_env [] [] [] (\<lambda>q. Inr [])) ''proj.ds.tbl'' 5 30 [])
     = Inr (Some False) \<and>
   (\<exists>h'. get_table_r (example_env [] [] [] (\<lambda>q. Inr [])) h' ''proj.ds.tbl'' = Inl NotFound)"
proof -
  define e1 where "e1 = example_env [] [] [(''proj.ds.tbl'', 0)] (\<lambda>q. Inr [])"
  define e2 where "e2 = example_env [] [] [] (\<lambda>q. Inr [])"
  have p: "(0 :: nat) < 5" by simp
  have z: "\<forall>h'. \<exists>info. get_table_r e1 h' ''proj.ds.tbl'' = Inr info \<and> \<not> num_rows info > 0"
    by (simp add: e1_def example_env_def)
  have nf: "get_table_r e2 [] ''proj.ds.tbl'' = Inl NotFound" by (simp add: e2_def example_env_def)
  have t1: "fst (verify_table_load e1 ''proj.ds.tbl'' 5 30 []) = Inr (Some True)"
    using verify_table_load_empty_is_success [of 5 e1 "''proj.ds.tbl''" 30 "[]"] p z by blast
  have t2: "verify_table_load e2 ''proj.ds.tbl'' 5 30 [] = (Inr (Some False), [] @ [GetTable ''proj.ds.tbl''])"
    using verify_table_load_empty_is_success [of 5 e2 "''proj.ds.tbl''" 30 "[]"] p nf by blast
  then have t2': "verify_table_load e2 ''proj.ds.tbl'' 5 30 [] = (Inr (Some False), [GetTable ''proj.ds.tbl''])"
    by simp
  then have t3: "fst (verify_table_load e2 ''proj.ds.tbl'' 5 30 []) = Inr (Some False)" by simp
  have t4: "\<exists>h'. get_table_r e2 h' ''proj.ds.tbl'' = Inl NotFound"
    using verify_table_load_empty_is_success [of 5 e2 "''proj.ds.tbl''" 30 "[]"] t3 by blast
  show ?thesis using p z nf t1 t2' t3 t4 unfolding e1_def e2_def by blast
qed

section \<open>Properties of the entry point\<close>

lemma verify_dataset_creation_loop_calls:
  "\<exists>rest. snd (verify_dataset_creation_loop e r mx delay atts h) = h @ rest \<and>
          (\<forall>c \<in> set rest. \<not> changes_tables c)"
proof (induction atts arbitrary: h)
  case Nil
  then show ?case by simp
next
  case (Cons a atts)
  obtain rest where r:
    "snd (verify_dataset_creation_loop e r mx delay atts (sleep delay (h @ [GetDataset r])))
       = sleep delay (h @ [GetDataset r]) @ rest" "\<forall>c \<in> set rest. \<not> changes_tables c"
    using Cons.IH by blast
  show ?case
    using r by (auto simp: get_dataset_def sleep_def changes_tables_def split: sum.splits)
qed

lemma create_dataset_if_not_exists_calls:
  "\<exists>rest. snd (create_dataset_if_not_exists e p d h) = h @ rest \<and>
          (\<forall>c \<in> set rest. \<not> changes_tables c)"
proof -
  define r where "r = p @ ''.'' @ d"
  define k where "k = h @ [GetDataset r, CreateDataset r]"
  obtain rest where v: "snd (verify_dataset_creation e r 5 30 k) = k @ rest"
      "\<forall>c \<in> set rest. \<not> changes_tables c"
    unfolding verify_dataset_creation_def using verify_dataset_creation_loop_calls by blast
  have "\<exists>rest. snd (create_dataset_if_not_exists e p d h) = h @ rest \<and>
          (\<forall>c \<in> set rest. \<not> changes_tables c)"
    unfolding create_dataset_if_not_exists_def Let_def r_def [symmetric]
    using v
    by (auto simp: get_dataset_def create_dataset_def changes_tables_def k_def
             split: sum.splits prod.splits)
  then show ?thesis .
qed

lemma create_dataset_if_not_exists_returns:
  assumes "\<forall>ex. get_dataset_r e h (p @ ''.'' @ d) = Inl ex \<longrightarrow> ex = NotFound"
  shows "\<exists>b. fst (create_dataset_if_not_exists e p d h) = Inr b"
  using assms
  by (auto simp: create_dataset_if_not_exists_def Let_def get_dataset_def create_dataset_def
           split: sum.splits prod.splits)

lemma process_csv_schema_history:
  "snd (process_csv_schema e b n k h) = h @ [DownloadAsText b n]"
  by (simp add: process_csv_schema_def download_as_text_def Let_def split: sum.splits list.splits)

text \<open>
  Claim C4. For a CSV name in \<open>create\<close> mode whose destination table is there, the
  invocation issues no load job and no query: every call it makes is a download, a
  lookup, a dataset creation or a sleep, so the rows of the table are what they were.
  When the dataset lookup raises nothing but \<open>NotFound\<close>, the invocation returns without
  raising.
\<close>

theorem create_mode_existing_table_not_loaded:
  assumes csv: "py_endswith name ''.csv''"
    and parse: "parse_filename name = Inr (d, t, ''create'', f)"
    and exists: "\<forall>h'. \<exists>info. get_table_r e h' (project e @ ''.'' @ d @ ''.'' @ t) = Inr info"
  shows "(\<exists>rest. snd (gcs_to_bq e (bucket, name) h) = h @ rest \<and>
                 (\<forall>c \<in> set rest. \<not> changes_tables c)) \<and>
         ((\<forall>h' ex. get_dataset_r e h' (project e @ ''.'' @ d) = Inl ex \<longrightarrow> ex = NotFound) \<longrightarrow>
            fst (gcs_to_bq e (bucket, name) h) = Inr ())"
proof -
  define h1 where "h1 = h @ [DownloadAsText bucket name]"
  let ?tr = "project e @ ''.'' @ d @ ''.'' @ t"
  obtain sch where s: "process_csv_schema e bucket name 100 h = (sch, h1)"
    unfolding h1_def using process_csv_schema_history [of e bucket name 100 h]
    by (cases "process_csv_schema e bucket name 100 h") simp
  obtain dr rest2 where c: "create_dataset_if_not_exists e (project e) d h1 = (dr, h1 @ rest2)"
      and c2: "\<forall>c \<in> set rest2. \<not> changes_tables c"
    using create_dataset_if_not_exists_calls [of e "project e" d h1]
    by (cases "create_dataset_if_not_exists e (project e) d h1") auto
  obtain info where i: "get_table_r e (h1 @ rest2) ?tr = Inr info"
    using exists by blast
  have dl: "\<not> changes_tables (DownloadAsText bucket name)" "\<not> changes_tables (GetTable ?tr)"
    by (simp_all add: changes_tables_def)
  have hist: "\<exists>rest. snd (gcs_to_bq e (bucket, name) h) = h @ rest \<and>
                 (\<forall>c \<in> set rest. \<not> changes_tables c)"
  proof (cases sch)
    case None
    then have "snd (gcs_to_bq e (bucket, name) h) = h @ [DownloadAsText bucket name]"
      using csv parse s by (simp add: gcs_to_bq_def h1_def)
    then show ?thesis using dl by simp
  next
    case (Some x)
    obtain cf sc rp where x: "x = (cf, sc, rp)" by (cases x)
    have "snd (gcs_to_bq e (bucket, name) h) = h @ [DownloadAsText bucket name] \<or>
          snd (gcs_to_bq e (bucket, name) h) = h @ (DownloadAsText bucket name # rest2) \<or>
          snd (gcs_to_bq e (bucket, name) h) = h @ (DownloadAsText bucket name # rest2 @ [GetTable ?tr])"
      unfolding gcs_to_bq_def Let_def
      using csv parse s Some x c i
      by (auto simp: h1_def get_table_def split: sum.splits)
    then show ?thesis using dl c2 by auto
  qed
  have clean: "fst (gcs_to_bq e (bucket, name) h) = Inr ()"
    if "\<forall>h' ex. get_dataset_r e h' (project e @ ''.'' @ d) = Inl ex \<longrightarrow> ex = NotFound"
  proof -
    have "\<forall>ex. get_dataset_r e h1 (project e @ ''.'' @ d) = Inl ex \<longrightarrow> ex = NotFound"
      using that by blast
    then obtain b where b: "dr = Inr b"
      using create_dataset_if_not_exists_returns [of e h1 "project e" d] c by auto
    show ?thesis
      unfolding gcs_to_bq_def Let_def
      using csv parse s c i b
      by (auto simp: get_table_def split: option.splits)
  qed
  show ?thesis using hist clean by blast
qed

theorem create_mode_existing_table_not_loaded_witness:
  "py_endswith ''ds-tbl-create__f.csv'' ''.csv'' \<and>
   parse_filename ''ds-tbl-create__f.csv'' = Inr (''ds'', ''tbl'', ''create'', ''f.csv'') \<and>
   (\<forall>h'. \<exists>info. get_table_r (example_env [''proj.ds''] [] [(''proj.ds.tbl'', 7)] (\<lambda>q. Inr []))
                   h' ''proj.ds.tbl'' = Inr info) \<and>
   (\<exists>rest. snd (gcs_to_bq (example_env [''proj.ds''] [] [(''proj.ds.tbl'', 7)] (\<lambda>q. Inr []))
                  (''bkt'', ''ds-tbl-create__f.csv'') []) = [] @ rest \<and>
           list_all (\<lambda>c. \<not> changes_tables c) rest) \<and>
   fst (gcs_to_bq (example_env [''proj.ds''] [] [(''proj.ds.tbl'', 7)] (\<lambda>q. Inr []))
          (''bkt'', ''ds-tbl-create__f.csv'') []) = Inr () \<and>
   gcs_to_bq (example_env [''proj.ds''] [] [(''proj.ds.tbl'', 7)] (\<lambda>q. Inr []))
     (''bkt'', ''ds-tbl-create__f.csv'') []
     = (Inr (), [DownloadAsText ''bkt'' ''ds-tbl-create__f.csv'', GetDataset ''proj.ds'',
                 GetTable ''proj.ds.tbl''])"
proof -
  define e1 where "e1 = example_env [''proj.ds''] [] [(''proj.ds.tbl'', 7)] (\<lambda>q. Inr [])"
  have run: "gcs_to_bq (example_env [''proj.ds''] [] [(''proj.ds.tbl'', 7)] (\<lambda>q. Inr []))
     (''bkt'', ''ds-tbl-create__f.csv'') []
     = (Inr (), [DownloadAsText ''bkt'' ''ds-tbl-create__f.csv'', GetDataset ''proj.ds'',
                 GetTable ''proj.ds.tbl''])"
    by code_simp
  have csv: "py_endswith ''ds-tbl-create__f.csv'' ''.csv''" by code_simp
  have pa: "parse_filename ''ds-tbl-create__f.csv'' = Inr (''ds'', ''tbl'', ''create'', ''f.csv'')"
    by code_simp
  have pr: "project e1 @ ''.'' @ ''ds'' @ ''.'' @ ''tbl'' = ''proj.ds.tbl''"
    "project e1 @ ''.'' @ ''ds'' = ''proj.ds''"
    by (simp_all add: e1_def example_env_def)
  have ex: "\<forall>h'. \<exists>info. get_table_r e1 h' ''proj.ds.tbl'' = Inr info"
    by (simp add: e1_def example_env_def)
  have ex': "\<forall>h'. \<exists>info. get_table_r e1 h' (project e1 @ ''.'' @ ''ds'' @ ''.'' @ ''tbl'') = Inr info"
    unfolding pr using ex .
  have ds: "\<forall>h' ex. get_dataset_r e1 h' (project e1 @ ''.'' @ ''ds'') = Inl ex \<longrightarrow> ex = NotFound"
    unfolding pr by (simp add: e1_def example_env_def)
  have t: "(\<exists>rest. snd (gcs_to_bq e1 (''bkt'', ''ds-tbl-create__f.csv'') []) = [] @ rest \<and>
                 (\<forall>c \<in> set rest. \<not> changes_tables c)) \<and>
           fst (gcs_to_bq e1 (''bkt'', ''ds-tbl-create__f.csv'') []) = Inr ()"
    using create_mode_existing_table_not_loaded [OF csv pa ex', of "''bkt''" "[]"] ds by blast
  then have "(\<exists>rest. snd (gcs_to_bq e1 (''bkt'', ''ds-tbl-create__f.csv'') []) = [] @ rest \<and>
                 list_all (\<lambda>c. \<not> changes_tables c) rest) \<and>
           fst (gcs_to_bq e1 (''bkt'', ''ds-tbl-create__f.csv'') []) = Inr ()"
    by (simp add: list_all_iff)
  then show ?thesis using csv pa ex run unfolding e1_def by blast
qed

section \<open>Properties of copy-based remediation\<close>

lemma select_clause_cases:
  "select_clause rnd total_rows dup_count =
     (if fdiv rnd dup_count total_rows < rnd (1 / 10) \<and> dup_count > 0
      then ''SELECT DISTINCT *'' else ''SELECT *'')"
  by (simp add: select_clause_def Let_def)

lemma rate_at_least_tenth:
  assumes "mono rnd" "0 < total_rows" "total_rows \<le> 10 * dup_count"
  shows "\<not> fdiv rnd dup_count total_rows < rnd (1 / 10)"
proof -
  have "(of_int total_rows :: rat) \<le> 10 * of_int dup_count"
    using assms(3) by (metis of_int_le_iff of_int_mult of_int_numeral)
  moreover have "(0 :: rat) < of_int total_rows" using assms(2) by simp
  ultimately have "(1 / 10 :: rat) \<le> of_int dup_count / of_int total_rows"
    by (simp add: field_simps)
  then have "rnd (1 / 10) \<le> rnd (of_int dup_count / of_int total_rows)"
    using assms(1) by (simp add: monoD)
  then show ?thesis by (simp add: fdiv_def)
qed

lemma where_clause_cases:
  "where_clause rnd total_rows na_count schema =
     (if fdiv rnd na_count total_rows < rnd (1 / 10) \<and> na_count > 0
      then ''WHERE '' @ py_join '' AND '' (map (\<lambda>n. n @ '' IS NOT NULL'') schema) else [])"
  by (simp add: where_clause_def Let_def)

lemma count_list_filter:
  "count_list (filter P xs) x = (if P x then count_list xs x else 0)"
  by (induction xs) auto

lemma clean_bq_table_calls:
  assumes t: "get_table_r e h (project_id p @ ''.'' @ dataset_id p @ ''.'' @ table_id p) = Inr tbl"
    and n0: "num_rows tbl \<noteq> 0"
    and na: "\<forall>h' conds. \<exists>r rs.
               query_r e h' (NaCountSql (project_id p @ ''.'' @ dataset_id p @ ''.'' @ table_id p) conds)
                 None = Inr (r # rs) \<and> r ''na_count'' = Some (IntV na_count)"
    and du: "\<forall>h'. \<exists>r rs.
               query_r e h' (DupCountSql (project_id p @ ''.'' @ dataset_id p @ ''.'' @ table_id p))
                 None = Inr (r # rs) \<and> r ''dup_count'' = Some (IntV dup_count)"
  shows "\<exists>tail. snd (clean_bq_table rnd e p h) =
           h @ [GetTable (project_id p @ ''.'' @ dataset_id p @ ''.'' @ table_id p),
                Query (NaCountSql (project_id p @ ''.'' @ dataset_id p @ ''.'' @ table_id p)
                         (map (\<lambda>n. n @ '' IS NULL'') (schema_fields tbl))) None,
                Query (DupCountSql (project_id p @ ''.'' @ dataset_id p @ ''.'' @ table_id p)) None,
                Query (Statement (cleaning_query rnd
                         (project_id p @ ''.'' @ dataset_id p @ ''.'' @ table_id p)
                         (num_rows tbl) na_count dup_count (schema_fields tbl)))
                  (Some (project_id p @ ''.'' @ dataset_id p @ ''.'' @ table_id p @ ''_cleaned_'' @
                         utcnow e
                           (h @ [GetTable (project_id p @ ''.'' @ dataset_id p @ ''.'' @ table_id p),
                                 Query (NaCountSql
                                          (project_id p @ ''.'' @ dataset_id p @ ''.'' @ table_id p)
                                          (map (\<lambda>n. n @ '' IS NULL'') (schema_fields tbl))) None,
                                 Query (DupCountSql
                                          (project_id p @ ''.'' @ dataset_id p @ ''.'' @ table_id p))
                                   None])))]
             @ tail"
proof -
  let ?src = "project_id p @ ''.'' @ dataset_id p @ ''.'' @ table_id p"
  let ?h1 = "h @ [GetTable ?src]"
  let ?q = "NaCountSql ?src (map (\<lambda>n. n @ '' IS NULL'') (schema_fields tbl))"
  let ?h2 = "?h1 @ [Query ?q None]"
  obtain r rs where r: "query_r e ?h1 ?q None = Inr (r # rs)" "r ''na_count'' = Some (IntV na_count)"
    using na by blast
  obtain r2 rs2 where r2: "query_r e ?h2 (DupCountSql ?src) None = Inr (r2 # rs2)"
      "r2 ''dup_count'' = Some (IntV dup_count)"
    using du by blast
  show ?thesis
    unfolding clean_bq_table_def Let_def
    using t n0 r r2
    by (auto simp: get_table_def query_def first_count_def first_row_def int_attr_def
             split: sum.splits)
qed

lemma destination_rows_without_distinct:
  assumes m: "mono rnd" and ne: "rows \<noteq> []"
    and d: "int (length rows) \<le> 10 * dup_count_of rows"
  shows "\<forall>r. None \<notin> set r \<longrightarrow> count_list (destination_rows rnd schema rows) r = count_list rows r"
    and "where_clause rnd (int (length rows)) (na_count_of rows) schema = [] \<Longrightarrow>
           destination_rows rnd schema rows = rows"
proof -
  have pos: "0 < int (length rows)" using ne by simp
  have s: "select_clause rnd (int (length rows)) (dup_count_of rows) = ''SELECT *''"
    using rate_at_least_tenth [OF m pos d] by (simp add: select_clause_cases)
  show "\<forall>r. None \<notin> set r \<longrightarrow> count_list (destination_rows rnd schema rows) r = count_list rows r"
    by (simp add: destination_rows_def selected_rows_def s Let_def count_list_filter)
  show "destination_rows rnd schema rows = rows"
    if "where_clause rnd (int (length rows)) (na_count_of rows) schema = []"
    using that by (simp add: destination_rows_def selected_rows_def s Let_def)
qed

text \<open>
  The claim as first stated fails on \<open>example_table\<close>, under the rounding of binary64:
  its duplicate rate is 60%, so the copy does not select \<open>DISTINCT\<close>, but 8% of its
  rows hold a NULL, so the statement carries the \<open>WHERE\<close> clause, and the row with a
  NULL that the table holds twice is not in the destination.
\<close>

theorem copy_keeps_duplicates_counterexample:
  "int (length example_table) = 25 \<and>
   dup_count_of example_table = 15 \<and>
   na_count_of example_table = 2 \<and>
   count_list example_table [None, Some (StrV ''c'')] = 2 \<and>
   count_list (destination_rows round64 [''id'', ''email''] example_table)
     [None, Some (StrV ''c'')] = 0 \<and>
   cleaning_query round64 ''proj.ds.tbl'' 25 2 15 [''id'', ''email'']
     = ''SELECT * FROM `proj.ds.tbl` WHERE id IS NOT NULL AND email IS NOT NULL''"
proof -
  have a: "int (length example_table) = 25" by code_simp
  have b: "dup_count_of example_table = 15" by code_simp
  have c: "na_count_of example_table = 2" by code_simp
  have d: "count_list example_table [None, Some (StrV ''c'')] = 2" by code_simp
  have e: "count_list (destination_rows round64 [''id'', ''email''] example_table)
     [None, Some (StrV ''c'')] = 0" by code_simp
  have f: "cleaning_query round64 ''proj.ds.tbl'' 25 2 15 [''id'', ''email'']
     = ''SELECT * FROM `proj.ds.tbl` WHERE id IS NOT NULL AND email IS NOT NULL''"
    by code_simp
  show ?thesis using a b c d e f by blast
qed

text \<open>
  Claim C5, as amended. The copy selects \<open>DISTINCT\<close> rows exactly when the duplicate
  rate \<open>dup_count / total_rows\<close> is strictly below the ceiling \<open>0.1\<close> and there is at
  least one duplicate row; otherwise the select clause is \<open>SELECT *\<close>, as for every
  table with a duplicate rate of one tenth or more, 60% among them (for a monotone
  rounding). The statement is that select clause, the source table, and the \<open>WHERE\<close>
  clause over all columns exactly when the rate of rows with a NULL is strictly below
  \<open>0.1\<close> and there is such a row. So at a duplicate rate of one tenth or more the
  destination holds every row that has no NULL as often as the source does, and all
  the rows of the source when the statement has no \<open>WHERE\<close> clause; rows with a NULL,
  duplicates or not, are removed otherwise. \<open>clean_bq_table\<close> sends this statement,
  after the lookup and the two count queries, into the table named after the source and
  the time.
\<close>

theorem copy_distinct_rule:
  "(select_clause rnd total_rows dup_count = ''SELECT DISTINCT *'' \<longleftrightarrow>
      fdiv rnd dup_count total_rows < rnd (1 / 10) \<and> dup_count > 0) \<and>
   (select_clause rnd total_rows dup_count = ''SELECT *'' \<longleftrightarrow>
      \<not> (fdiv rnd dup_count total_rows < rnd (1 / 10) \<and> dup_count > 0)) \<and>
   (mono rnd \<longrightarrow> 0 < total_rows \<longrightarrow> total_rows \<le> 10 * dup_count \<longrightarrow>
      select_clause rnd total_rows dup_count = ''SELECT *'') \<and>
   cleaning_query rnd source_table total_rows na_count dup_count schema =
     select_clause rnd total_rows dup_count @ '' FROM `'' @ source_table @ ''` '' @
     where_clause rnd total_rows na_count schema \<and>
   where_clause rnd total_rows na_count schema =
     (if fdiv rnd na_count total_rows < rnd (1 / 10) \<and> na_count > 0
      then ''WHERE '' @ py_join '' AND '' (map (\<lambda>n. n @ '' IS NOT NULL'') schema) else []) \<and>
   (mono rnd \<longrightarrow> rows \<noteq> [] \<longrightarrow> int (length rows) \<le> 10 * dup_count_of rows \<longrightarrow>
      (\<forall>r. None \<notin> set r \<longrightarrow>
            count_list (destination_rows rnd schema rows) r = count_list rows r) \<and>
      (where_clause rnd (int (length rows)) (na_count_of rows) schema = [] \<longrightarrow>
         destination_rows rnd schema rows = rows)) \<and>
   (get_table_r e h (project_id p @ ''.'' @ dataset_id p @ ''.'' @ table_id p) = Inr tbl \<longrightarrow>
    num_rows tbl = total_rows \<longrightarrow> total_rows \<noteq> 0 \<longrightarrow>
    (\<forall>h' conds. \<exists>r rs.
        query_r e h' (NaCountSql (project_id p @ ''.'' @ dataset_id p @ ''.'' @ table_id p) conds)
          None = Inr (r # rs) \<and> r ''na_count'' = Some (IntV na_count)) \<longrightarrow>
    (\<forall>h'. \<exists>r rs.
        query_r e h' (DupCountSql (project_id p @ ''.'' @ dataset_id p @ ''.'' @ table_id p))
          None = Inr (r # rs) \<and> r ''dup_count'' = Some (IntV dup_count)) \<longrightarrow>
    (\<exists>tail. snd (clean_bq_table rnd e p h) =
           h @ [GetTable (project_id p @ ''.'' @ dataset_id p @ ''.'' @ table_id p),
                Query (NaCountSql (project_id p @ ''.'' @ dataset_id p @ ''.'' @ table_id p)
                         (map (\<lambda>n. n @ '' IS NULL'') (schema_fields tbl))) None,
                Query (DupCountSql (project_id p @ ''.'' @ dataset_id p @ ''.'' @ table_id p)) None,
                Query (Statement (cleaning_query rnd
                         (project_id p @ ''.'' @ dataset_id p @ ''.'' @ table_id p)
                         total_rows na_count dup_count (schema_fields tbl)))
                  (Some (project_id p @ ''.'' @ dataset_id p @ ''.'' @ table_id p @ ''_cleaned_'' @
                         utcnow e
                           (h @ [GetTable (project_id p @ ''.'' @ dataset_id p @ ''.'' @ table_id p),
                                 Query (NaCountSql
                                          (project_id p @ ''.'' @ dataset_id p @ ''.'' @ table_id p)
                                          (map (\<lambda>n. n @ '' IS NULL'') (schema_fields tbl))) None,
                                 Query (DupCountSql
                                          (project_id p @ ''.'' @ dataset_id p @ ''.'' @ table_id p))
                                   None])))]
             @ tail))"
proof -
  have a: "select_clause rnd total_rows dup_count = ''SELECT *''"
    if "mono rnd" "0 < total_rows" "total_rows \<le> 10 * dup_count"
    using rate_at_least_tenth [OF that] by (simp add: select_clause_cases)
  have b: "cleaning_query rnd source_table total_rows na_count dup_count schema =
     select_clause rnd total_rows dup_count @ '' FROM `'' @ source_table @ ''` '' @
     where_clause rnd total_rows na_count schema"
    by (simp add: cleaning_query_def)
  have c: "select_clause rnd total_rows dup_count = ''SELECT DISTINCT *'' \<longleftrightarrow>
      fdiv rnd dup_count total_rows < rnd (1 / 10) \<and> dup_count > 0"
    by (simp add: select_clause_cases)
  have d: "select_clause rnd total_rows dup_count = ''SELECT *'' \<longleftrightarrow>
      \<not> (fdiv rnd dup_count total_rows < rnd (1 / 10) \<and> dup_count > 0)"
    by (simp add: select_clause_cases)
  note w = where_clause_cases [of rnd total_rows na_count schema]
  have r: "(\<forall>r. None \<notin> set r \<longrightarrow>
            count_list (destination_rows rnd schema rows) r = count_list rows r) \<and>
      (where_clause rnd (int (length rows)) (na_count_of rows) schema = [] \<longrightarrow>
         destination_rows rnd schema rows = rows)"
    if "mono rnd" "rows \<noteq> []" "int (length rows) \<le> 10 * dup_count_of rows"
    using destination_rows_without_distinct [OF that, of schema] by blast
  have s: "\<exists>tail. snd (clean_bq_table rnd e p h) =
           h @ [GetTable (project_id p @ ''.'' @ dataset_id p @ ''.'' @ table_id p),
                Query (NaCountSql (project_id p @ ''.'' @ dataset_id p @ ''.'' @ table_id p)
                         (map (\<lambda>n. n @ '' IS NULL'') (schema_fields tbl))) None,
                Query (DupCountSql (project_id p @ ''.'' @ dataset_id p @ ''.'' @ table_id p)) None,
                Query (Statement (cleaning_query rnd
                         (project_id p @ ''.'' @ dataset_id p @ ''.'' @ table_id p)
                         total_rows na_count dup_count (schema_fields tbl)))
                  (Some (project_id p @ ''.'' @ dataset_id p @ ''.'' @ table_id p @ ''_cleaned_'' @
                         utcnow e
                           (h @ [GetTable (project_id p @ ''.'' @ dataset_id p @ ''.'' @ table_id p),
                                 Query (NaCountSql
                                          (project_id p @ ''.'' @ dataset_id p @ ''.'' @ table_id p)
                                          (map (\<lambda>n. n @ '' IS NULL'') (schema_fields tbl))) None,
                                 Query (DupCountSql
                                          (project_id p @ ''.'' @ dataset_id p @ ''.'' @ table_id p))
                                   None])))]
             @ tail"
    if "get_table_r e h (project_id p @ ''.'' @ dataset_id p @ ''.'' @ table_id p) = Inr tbl"
      "num_rows tbl = total_rows" "total_rows \<noteq> 0"
      "\<forall>h' conds. \<exists>r rs.
        query_r e h' (NaCountSql (project_id p @ ''.'' @ dataset_id p @ ''.'' @ table_id p) conds)
          None = Inr (r # rs) \<and> r ''na_count'' = Some (IntV na_count)"
      "\<forall>h'. \<exists>r rs.
        query_r e h' (DupCountSql (project_id p @ ''.'' @ dataset_id p @ ''.'' @ table_id p))
          None = Inr (r # rs) \<and> r ''dup_count'' = Some (IntV dup_count)"
  proof -
    have "num_rows tbl \<noteq> 0" using that(2,3) by simp
    from clean_bq_table_calls [OF that(1) this that(4) that(5), of rnd]
    show ?thesis unfolding that(2) .
  qed
  show ?thesis using a b c d w r s by blast
qed

theorem copy_distinct_rule_witness:
  "mono (id :: rat \<Rightarrow> rat) \<and> (0 :: int) < 1000 \<and> (1000 :: int) \<le> 10 * 600 \<and>
   select_clause id 1000 600 = ''SELECT *'' \<and>
   fdiv id 50 1000 < id (1 / 10) \<and> (50 :: int) > 0 \<and>
   select_clause id 1000 50 = ''SELECT DISTINCT *'' \<and>
   example_table \<noteq> [] \<and>
   int (length example_table) \<le> 10 * dup_count_of example_table \<and>
   None \<notin> set [Some (IntV 0), Some (StrV ''a'')] \<and>
   count_list example_table [Some (IntV 0), Some (StrV ''a'')] = 15 \<and>
   count_list (destination_rows id [''id'', ''email''] example_table)
     [Some (IntV 0), Some (StrV ''a'')] = 15 \<and>
   where_clause id (int (length (replicate 3 [Some (IntV 0), Some (StrV ''a'')])))
     (na_count_of (replicate 3 [Some (IntV 0), Some (StrV ''a'')])) [''id'', ''email''] = [] \<and>
   destination_rows id [''id'', ''email''] (replicate 3 [Some (IntV 0), Some (StrV ''a'')])
     = replicate 3 [Some (IntV 0), Some (StrV ''a'')] \<and>
   get_table_r (example_env [] [] [(''proj.ds.tbl'', 25)] (count_answers 2 15)) []
     ''proj.ds.tbl'' = Inr \<lparr>num_rows = 25, schema_fields = [''id'', ''email'']\<rparr> \<and>
   (\<exists>tail.
      snd (clean_bq_table id (example_env [] [] [(''proj.ds.tbl'', 25)] (count_answers 2 15))
             \<lparr>project_id = ''proj'', dataset_id = ''ds'', table_id = ''tbl''\<rparr> [])
      = [GetTable ''proj.ds.tbl'',
         Query (NaCountSql ''proj.ds.tbl'' [''id IS NULL'', ''email IS NULL'']) None,
         Query (DupCountSql ''proj.ds.tbl'') None,
         Query (Statement
                  ''SELECT * FROM `proj.ds.tbl` WHERE id IS NOT NULL AND email IS NOT NULL'')
           (Some ''proj.ds.tbl_cleaned_20250101_000000'')] @ tail)"
proof -
  define e1 where "e1 = example_env [] [] [(''proj.ds.tbl'', 25)] (count_answers 2 15)"
  define p1 where "p1 = \<lparr>project_id = ''proj'', dataset_id = ''ds'', table_id = ''tbl''\<rparr>"
  define tbl where "tbl = \<lparr>num_rows = 25, schema_fields = [''id'', ''email'']\<rparr>"
  define ra :: table_row where "ra = [Some (IntV 0), Some (StrV ''a'')]"
  define t3 where "t3 = replicate 3 ra"
  define sch where "sch = [''id'', ''email'']"
  have m: "mono (id :: rat \<Rightarrow> rat)" by (simp add: mono_def)
  have n: "(0 :: int) < 1000" "(1000 :: int) \<le> 10 * 600" "(50 :: int) > 0" by simp_all
  have r: "fdiv id 50 1000 < id (1 / 10)" by (simp add: fdiv_def)
  have s1: "select_clause id 1000 600 = ''SELECT *''"
    using copy_distinct_rule [of id 1000 600] m n by blast
  have s2: "select_clause id 1000 50 = ''SELECT DISTINCT *''"
    using copy_distinct_rule [of id 1000 50] r n by blast
  have ne: "example_table \<noteq> []" by code_simp
  have d: "int (length example_table) \<le> 10 * dup_count_of example_table" by code_simp
  have nn: "None \<notin> set ra" by (simp add: ra_def)
  have ca: "count_list example_table ra = 15" unfolding ra_def by code_simp
  have keep: "\<forall>r. None \<notin> set r \<longrightarrow>
                count_list (destination_rows id sch example_table) r = count_list example_table r"
    using copy_distinct_rule [where rnd = id and rows = example_table and schema = sch] m ne d
    by blast
  have cd: "count_list (destination_rows id sch example_table) ra = 15"
    using keep nn ca by simp
  have ne3: "t3 \<noteq> []" by (simp add: t3_def)
  have d3: "int (length t3) \<le> 10 * dup_count_of t3" unfolding t3_def ra_def by code_simp
  have w3: "where_clause id (int (length t3)) (na_count_of t3) sch = []"
    unfolding t3_def ra_def sch_def by code_simp
  have all3: "destination_rows id sch t3 = t3"
    using copy_distinct_rule [where rnd = id and rows = t3 and schema = sch] m ne3 d3 w3
    by blast
  have src: "project_id p1 @ ''.'' @ dataset_id p1 @ ''.'' @ table_id p1 = ''proj.ds.tbl''"
    by (simp add: p1_def)
  have g: "get_table_r e1 [] ''proj.ds.tbl'' = Inr tbl"
    by (simp add: e1_def example_env_def tbl_def)
  have g': "get_table_r e1 [] (project_id p1 @ ''.'' @ dataset_id p1 @ ''.'' @ table_id p1) = Inr tbl"
    unfolding src using g .
  have nr: "num_rows tbl = 25" "(25 :: int) \<noteq> 0" by (simp_all add: tbl_def)
  have sf: "schema_fields tbl = [''id'', ''email'']" by (simp add: tbl_def)
  have na: "\<forall>h' conds. \<exists>r rs.
        query_r e1 h' (NaCountSql (project_id p1 @ ''.'' @ dataset_id p1 @ ''.'' @ table_id p1) conds)
          None = Inr (r # rs) \<and> r ''na_count'' = Some (IntV 2)"
    by (simp add: e1_def example_env_def count_answers_def)
  have du: "\<forall>h'. \<exists>r rs.
        query_r e1 h' (DupCountSql (project_id p1 @ ''.'' @ dataset_id p1 @ ''.'' @ table_id p1))
          None = Inr (r # rs) \<and> r ''dup_count'' = Some (IntV 15)"
    by (simp add: e1_def example_env_def count_answers_def)
  have cq: "cleaning_query id ''proj.ds.tbl'' 25 2 15 [''id'', ''email'']
              = ''SELECT * FROM `proj.ds.tbl` WHERE id IS NOT NULL AND email IS NOT NULL''"
    by code_simp
  have ts: "utcnow e1 hh = ''20250101_000000''" for hh by (simp add: e1_def example_env_def)
  have q: "\<exists>tail. snd (clean_bq_table id e1 p1 []) =
           [] @ [GetTable (project_id p1 @ ''.'' @ dataset_id p1 @ ''.'' @ table_id p1),
                Query (NaCountSql (project_id p1 @ ''.'' @ dataset_id p1 @ ''.'' @ table_id p1)
                         (map (\<lambda>n. n @ '' IS NULL'') (schema_fields tbl))) None,
                Query (DupCountSql (project_id p1 @ ''.'' @ dataset_id p1 @ ''.'' @ table_id p1)) None,
                Query (Statement (cleaning_query id
                         (project_id p1 @ ''.'' @ dataset_id p1 @ ''.'' @ table_id p1)
                         25 2 15 (schema_fields tbl)))
                  (Some (project_id p1 @ ''.'' @ dataset_id p1 @ ''.'' @ table_id p1 @ ''_cleaned_'' @
                         utcnow e1
                           ([] @ [GetTable (project_id p1 @ ''.'' @ dataset_id p1 @ ''.'' @ table_id p1),
                                 Query (NaCountSql
                                          (project_id p1 @ ''.'' @ dataset_id p1 @ ''.'' @ table_id p1)
                                          (map (\<lambda>n. n @ '' IS NULL'') (schema_fields tbl))) None,
                                 Query (DupCountSql
                                          (project_id p1 @ ''.'' @ dataset_id p1 @ ''.'' @ table_id p1))
                                   None])))]
             @ tail"
    using copy_distinct_rule [where rnd = id and total_rows = 25 and na_count = 2 and dup_count = 15
                               and e = e1 and h = "[]" and p = p1 and tbl = tbl]
      g' nr na du by blast
  have q': "\<exists>tail. snd (clean_bq_table id e1 p1 []) =
      [GetTable ''proj.ds.tbl'',
       Query (NaCountSql ''proj.ds.tbl'' [''id IS NULL'', ''email IS NULL'']) None,
       Query (DupCountSql ''proj.ds.tbl'') None,
       Query (Statement
                ''SELECT * FROM `proj.ds.tbl` WHERE id IS NOT NULL AND email IS NOT NULL'')
         (Some ''proj.ds.tbl_cleaned_20250101_000000'')] @ tail"
    using q unfolding src sf ts cq by (simp add: p1_def)
  show ?thesis
    using m n r s1 s2 ne d nn ca cd w3 all3 g q'
    unfolding e1_def p1_def tbl_def ra_def t3_def sch_def by blast
qed

section \<open>Properties of the Result Validator\<close>

subsection \<open>The error of the rounding of binary64\<close>

lemma round_half_even_error: "\<bar>of_int (round_half_even x) - x\<bar> \<le> 1 / 2"
proof -
  have "of_int \<lfloor>x\<rfloor> \<le> x" "x < of_int \<lfloor>x\<rfloor> + 1" by linarith+
  then show ?thesis by (auto simp: round_half_even_def Let_def)
qed

lemma floorlog_int_bounds:
  assumes "1 \<le> n"
  shows "1 \<le> floorlog 2 (nat n)"
    and "(2 :: rat) ^ (floorlog 2 (nat n) - 1) \<le> of_int n"
    and "of_int n + 1 \<le> (2 :: rat) ^ floorlog 2 (nat n)"
proof -
  have pos: "nat n > 0" using assms by simp
  have b: "2 ^ (floorlog 2 (nat n) - 1) \<le> nat n" "nat n < 2 ^ floorlog 2 (nat n)"
    using floorlog_bounds [of "nat n" 2] pos by simp_all
  have "floorlog 2 (nat n) \<noteq> 0"
    using pos floorlog_eq_zero_iff [of 2 "nat n"] by simp
  then show "1 \<le> floorlog 2 (nat n)" by simp
  have "int (2 ^ (floorlog 2 (nat n) - 1)) \<le> int (nat n)" using b(1) by (rule iffD2 [OF of_nat_le_iff])
  then have "(2 :: int) ^ (floorlog 2 (nat n) - 1) \<le> n" using assms by simp
  then have "of_int ((2 :: int) ^ (floorlog 2 (nat n) - 1)) \<le> (of_int n :: rat)"
    by (rule iffD2 [OF of_int_le_iff])
  then show "(2 :: rat) ^ (floorlog 2 (nat n) - 1) \<le> of_int n" by simp
  have "int (nat n) < int (2 ^ floorlog 2 (nat n))" using b(2) by (rule iffD2 [OF of_nat_less_iff])
  then have "n + 1 \<le> (2 :: int) ^ floorlog 2 (nat n)" using assms by simp
  then have "of_int (n + 1) \<le> (of_int ((2 :: int) ^ floorlog 2 (nat n)) :: rat)"
    by (rule iffD2 [OF of_int_le_iff])
  then show "of_int n + 1 \<le> (2 :: rat) ^ floorlog 2 (nat n)" by simp
qed

lemma binade_bounds:
  assumes "0 < x"
  shows "2 powi binade x \<le> x" and "x < 2 powi (binade x + 1)"
proof -
  have "2 powi binade x \<le> x \<and> x < 2 powi (binade x + 1)"
  proof (cases "1 \<le> x")
    case True
    define n where "n = \<lfloor>x\<rfloor>"
    define L where "L = floorlog 2 (nat n)"
    have n1: "1 \<le> n" using True by (simp add: n_def le_floor_iff)
    note fb = floorlog_int_bounds [OF n1, folded L_def]
    have e: "binade x = int L - 1" using True by (simp add: binade_def n_def L_def)
    have e1: "int L - 1 = int (L - 1)" using fb(1) by simp
    have "(2 :: rat) powi (int L - 1) = 2 ^ (L - 1)" unfolding e1 by (rule power_int_of_nat)
    moreover have "(2 :: rat) powi (int L - 1 + 1) = 2 ^ L" by simp
    moreover have "of_int n \<le> x" "x < of_int n + 1" unfolding n_def by linarith+
    ultimately show ?thesis using fb unfolding e by linarith
  next
    case False
    define y where "y = 1 / x"
    define c where "c = \<lceil>y\<rceil>"
    define L where "L = floorlog 2 (nat (c - 1))"
    have y1: "1 < y" using False assms by (simp add: y_def)
    have c2: "1 \<le> c - 1" using y1 unfolding c_def by (simp add: less_ceiling_iff)
    note fb = floorlog_int_bounds [OF c2, folded L_def]
    have e: "binade x = - int L" using False by (simp add: binade_def y_def c_def L_def)
    have yc: "y \<le> of_int c" "of_int c - 1 < y" unfolding c_def by linarith+
    have c3: "(of_int c :: rat) \<le> 2 ^ L" "(2 :: rat) ^ (L - 1) \<le> of_int c - 1"
      using fb(2,3) by simp_all
    have up: "y \<le> 2 ^ L" using c3(1) yc(1) by linarith
    have lo: "2 ^ (L - 1) < y" using c3(2) yc(2) by linarith
    have x: "x = 1 / y" using assms by (simp add: y_def)
    have ypos: "0 < y" using y1 by simp
    have p1: "(2 :: rat) powi (- int L) = 1 / 2 ^ L"
      by (simp add: power_int_minus field_simps)
    have e1: "- int L + 1 = - int (L - 1)" using fb(1) by simp
    have p2: "(2 :: rat) powi (- int L + 1) = 1 / 2 ^ (L - 1)"
      unfolding e1 by (simp add: power_int_minus field_simps)
    have a: "1 / 2 ^ L \<le> 1 / y" using up ypos by (simp add: frac_le)
    have b: "1 / y < 1 / 2 ^ (L - 1)" using lo by (simp add: frac_less2)
    have a': "1 / 2 ^ L \<le> x" and b': "x < 1 / 2 ^ (L - 1)" using a b unfolding x by simp_all
    show ?thesis unfolding e p1 p2 using a' b' by (rule conjI)
  qed
  then show "2 powi binade x \<le> x" and "x < 2 powi (binade x + 1)" by simp_all
qed

lemma round64_pos_error:
  assumes "0 < x"
  shows "\<bar>round64_pos x - x\<bar> \<le> x / 2 ^ 53"
proof -
  define s :: rat where "s = 2 powi (binade x - 52)"
  define m where "m = round_half_even (x / s)"
  have spos: "0 < s" unfolding s_def by simp
  have s2: "s = 2 powi binade x / 2 ^ 52"
    unfolding s_def by (simp add: power_int_diff)
  have sx: "s \<le> x / 2 ^ 52" unfolding s2 using binade_bounds(1) [OF assms]
    by (simp add: divide_right_mono)
  have "\<bar>of_int m - x / s\<bar> \<le> 1 / 2" unfolding m_def by (rule round_half_even_error)
  then have "\<bar>of_int m - x / s\<bar> * s \<le> 1 / 2 * s" using spos by (simp add: mult_right_mono)
  moreover have "\<bar>of_int m - x / s\<bar> * s = \<bar>of_int m * s - x\<bar>"
    using spos by (simp add: abs_mult_pos [symmetric] field_simps)
  ultimately have "\<bar>of_int m * s - x\<bar> \<le> s / 2" by simp
  also have "s / 2 \<le> x / 2 ^ 53" using sx by simp
  finally show ?thesis by (simp add: round64_pos_def s_def m_def)
qed

lemma round64_error: "0 \<le> x \<Longrightarrow> \<bar>round64 x - x\<bar> \<le> x / 2 ^ 53"
  using round64_pos_error [of x] by (cases "x = 0") (simp_all add: round64_def)

lemma rounded_product_bounds:
  assumes err: "\<forall>x. 0 \<le> x \<longrightarrow> \<bar>rnd x - x\<bar> \<le> u * x"
    and u: "0 \<le> u" "u \<le> 1" and q: "0 \<le> q"
  shows "q * 100 * (1 - u)\<^sup>2 \<le> fmul rnd (rnd q) 100"
    and "fmul rnd (rnd q) 100 \<le> q * 100 * (1 + u)\<^sup>2"
proof -
  have e1: "\<bar>rnd q - q\<bar> \<le> u * q" using err q by blast
  have lo1: "q * (1 - u) \<le> rnd q" and hi1: "rnd q \<le> q * (1 + u)"
    using e1 by (simp_all add: abs_le_iff algebra_simps)
  have "0 \<le> q * (1 - u)" using q u by simp
  then have y0: "0 \<le> rnd q" using lo1 by linarith
  then have y1: "0 \<le> rnd q * 100" by simp
  have e2: "\<bar>rnd (rnd q * 100) - rnd q * 100\<bar> \<le> u * (rnd q * 100)" using err y1 by blast
  have lo2: "rnd q * 100 * (1 - u) \<le> rnd (rnd q * 100)"
    and hi2: "rnd (rnd q * 100) \<le> rnd q * 100 * (1 + u)"
    using e2 by (simp_all add: abs_le_iff algebra_simps)
  have "q * (1 - u) * (100 * (1 - u)) \<le> rnd q * (100 * (1 - u))"
    using lo1 u by (intro mult_right_mono) simp_all
  then have a: "q * 100 * (1 - u)\<^sup>2 \<le> rnd q * 100 * (1 - u)"
    by (simp add: power2_eq_square algebra_simps)
  have "rnd q * (100 * (1 + u)) \<le> q * (1 + u) * (100 * (1 + u))"
    using hi1 u by (intro mult_right_mono) simp_all
  then have b: "rnd q * 100 * (1 + u) \<le> q * 100 * (1 + u)\<^sup>2"
    by (simp add: power2_eq_square algebra_simps)
  show "q * 100 * (1 - u)\<^sup>2 \<le> fmul rnd (rnd q) 100"
    unfolding fmul_def using a lo2 by linarith
  show "fmul rnd (rnd q) 100 \<le> q * 100 * (1 + u)\<^sup>2"
    unfolding fmul_def using b hi2 by linarith
qed

subsection \<open>\<open>validate_cleaning_results\<close>\<close>

lemma validate_cleaning_results_answered:
  assumes q: "query_r e h (ValidationSql table_ref original_row_count) None = Inr (r # rs)"
    and cur: "r ''current_row_count'' = Some (IntV current)"
    and chg: "r ''row_count_change'' = Some (IntV (current - original_row_count))"
  shows "fst (validate_cleaning_results rnd e table_ref original_row_count tolerance_pct h) =
      (\<not> (current \<noteq> original_row_count \<and>
           (original_row_count = 0 \<or>
            tolerance_pct <
              fmul rnd (fdiv rnd \<bar>current - original_row_count\<bar> original_row_count) 100)))"
  using q cur chg
  by (simp add: validate_cleaning_results_def query_def first_row_def int_attr_def truediv_def
        fdiv_def Let_def)

text \<open>
  The claim as first stated fails twice. Under the rounding of binary64, for an original
  count of 100, a current count of 93 and a tolerance of 7, the percentage computed is
  just above 7 and the function returns \<open>False\<close>, though the change of 7 rows does not
  exceed 7 percent of 100. And when the query fails, the handler returns \<open>False\<close> with no
  count read at all.
\<close>

theorem validate_cleaning_results_counterexample:
  "fst (validate_cleaning_results round64
          (example_env [] [] [] (validation_answers 93 (- 7))) ''proj.ds.tbl'' 100 7 []) = False \<and>
   \<not> (7 :: rat) * of_int 100 < of_int \<bar>93 - 100\<bar> * 100 \<and>
   fmul round64 (fdiv round64 \<bar>93 - 100\<bar> 100) 100 = 7881299347898369 / 1125899906842624 \<and>
   fst (validate_cleaning_results round64
          (example_env [] [] [] failing_answers) ''proj.ds.tbl'' 100 7 []) = False"
proof -
  have p: "fmul round64 (fdiv round64 \<bar>93 - 100\<bar> 100) 100 = 7881299347898369 / 1125899906842624"
    by code_simp
  have q: "query_r (example_env [] [] [] (validation_answers 93 (- 7))) []
             (ValidationSql ''proj.ds.tbl'' 100) None
           = Inr ([''current_row_count'' \<mapsto> IntV 93, ''row_count_change'' \<mapsto> IntV (- 7)] # [])"
    by (simp add: example_env_def validation_answers_def)
  have a: "fst (validate_cleaning_results round64
          (example_env [] [] [] (validation_answers 93 (- 7))) ''proj.ds.tbl'' 100 7 []) = False"
    using validate_cleaning_results_answered [OF q, of 93 round64 7] p by simp
  have b: "fst (validate_cleaning_results round64
          (example_env [] [] [] failing_answers) ''proj.ds.tbl'' 100 7 []) = False"
    by (simp add: validate_cleaning_results_def query_def example_env_def failing_answers_def)
  have c: "\<not> (7 :: rat) * of_int 100 < of_int \<bar>93 - 100\<bar> * 100" by simp
  show ?thesis using a b c p by blast
qed

text \<open>
  Claim C6, as amended. When the validation query fails, \<open>validate_cleaning_results\<close>
  returns \<open>False\<close>. When it answers with the current count and its difference to the
  original count: an unchanged count returns \<open>True\<close>; a changed count returns \<open>False\<close>
  exactly when the original count is zero or the percentage
  \<open>abs(change) / original * 100\<close>, as computed, is above \<open>tolerance_pct\<close>. For a
  rounding with a relative error of at most \<open>u\<close> and a positive original count, the
  result is \<open>False\<close> when the exact percentage, lowered by the factor \<open>(1 - u)\<^sup>2\<close>, is
  still above the tolerance, and \<open>True\<close> when the exact percentage, raised by the
  factor \<open>(1 + u)\<^sup>2\<close>, is still within it; nothing is said in between.
\<close>

theorem validate_cleaning_results_rule:
  "(query_r e h (ValidationSql table_ref original_row_count) None = Inl ex \<longrightarrow>
      fst (validate_cleaning_results rnd e table_ref original_row_count tolerance_pct h) = False) \<and>
   (query_r e h (ValidationSql table_ref original_row_count) None = Inr (r # rs) \<longrightarrow>
    r ''current_row_count'' = Some (IntV current) \<longrightarrow>
    r ''row_count_change'' = Some (IntV (current - original_row_count)) \<longrightarrow>
      (current = original_row_count \<longrightarrow>
         fst (validate_cleaning_results rnd e table_ref original_row_count tolerance_pct h) = True) \<and>
      (fst (validate_cleaning_results rnd e table_ref original_row_count tolerance_pct h) = False
         \<longleftrightarrow> current \<noteq> original_row_count \<and>
             (original_row_count = 0 \<or>
              tolerance_pct <
                fmul rnd (fdiv rnd \<bar>current - original_row_count\<bar> original_row_count) 100)) \<and>
      (0 < original_row_count \<longrightarrow> current \<noteq> original_row_count \<longrightarrow>
       0 \<le> u \<longrightarrow> u \<le> 1 \<longrightarrow> (\<forall>x. 0 \<le> x \<longrightarrow> \<bar>rnd x - x\<bar> \<le> u * x) \<longrightarrow>
         (tolerance_pct
            < of_int \<bar>current - original_row_count\<bar> / of_int original_row_count * 100 * (1 - u)\<^sup>2
          \<longrightarrow> fst (validate_cleaning_results rnd e table_ref original_row_count tolerance_pct h)
                = False) \<and>
         (of_int \<bar>current - original_row_count\<bar> / of_int original_row_count * 100 * (1 + u)\<^sup>2
            \<le> tolerance_pct
          \<longrightarrow> fst (validate_cleaning_results rnd e table_ref original_row_count tolerance_pct h)
                = True)))"
proof -
  let ?res = "fst (validate_cleaning_results rnd e table_ref original_row_count tolerance_pct h)"
  let ?q = "of_int \<bar>current - original_row_count\<bar> / of_int original_row_count :: rat"
  have a: "?res = False"
    if "query_r e h (ValidationSql table_ref original_row_count) None = Inl ex"
    using that by (simp add: validate_cleaning_results_def query_def)
  have b: "(current = original_row_count \<longrightarrow> ?res = True) \<and>
      (?res = False
         \<longleftrightarrow> current \<noteq> original_row_count \<and>
             (original_row_count = 0 \<or>
              tolerance_pct <
                fmul rnd (fdiv rnd \<bar>current - original_row_count\<bar> original_row_count) 100)) \<and>
      (0 < original_row_count \<longrightarrow> current \<noteq> original_row_count \<longrightarrow>
       0 \<le> u \<longrightarrow> u \<le> 1 \<longrightarrow> (\<forall>x. 0 \<le> x \<longrightarrow> \<bar>rnd x - x\<bar> \<le> u * x) \<longrightarrow>
         (tolerance_pct < ?q * 100 * (1 - u)\<^sup>2 \<longrightarrow> ?res = False) \<and>
         (?q * 100 * (1 + u)\<^sup>2 \<le> tolerance_pct \<longrightarrow> ?res = True))"
    if q: "query_r e h (ValidationSql table_ref original_row_count) None = Inr (r # rs)"
      and cur: "r ''current_row_count'' = Some (IntV current)"
      and chg: "r ''row_count_change'' = Some (IntV (current - original_row_count))"
  proof -
    note v = validate_cleaning_results_answered [OF q cur chg, of rnd tolerance_pct]
    have c: "(tolerance_pct < ?q * 100 * (1 - u)\<^sup>2 \<longrightarrow> ?res = False) \<and>
         (?q * 100 * (1 + u)\<^sup>2 \<le> tolerance_pct \<longrightarrow> ?res = True)"
      if pos: "0 < original_row_count" and ne: "current \<noteq> original_row_count"
        and u: "0 \<le> u" "u \<le> 1" and err: "\<forall>x. 0 \<le> x \<longrightarrow> \<bar>rnd x - x\<bar> \<le> u * x"
    proof -
      have q0: "0 \<le> ?q" using pos by simp
      have f: "fdiv rnd \<bar>current - original_row_count\<bar> original_row_count = rnd ?q"
        by (simp add: fdiv_def)
      note bd = rounded_product_bounds [OF err u q0]
      have o0: "original_row_count \<noteq> 0" using pos by simp
      show ?thesis using v bd ne o0 unfolding f by auto
    qed
    show ?thesis using v c by blast
  qed
  show ?thesis using a b by blast
qed

theorem validate_cleaning_results_rule_witness:
  "query_r (example_env [] [] [] failing_answers) [] (ValidationSql ''proj.ds.tbl'' 1000) None
     = Inl OtherError \<and>
   \<not> fst (validate_cleaning_results round64 (example_env [] [] [] failing_answers)
            ''proj.ds.tbl'' 1000 1 []) \<and>
   query_r (example_env [] [] [] (validation_answers 980 (- 20))) []
      (ValidationSql ''proj.ds.tbl'' 1000) None
     = Inr [[''current_row_count'' \<mapsto> IntV 980, ''row_count_change'' \<mapsto> IntV (- 20)]] \<and>
   (0 :: int) < 1000 \<and> (980 :: int) \<noteq> 1000 \<and> (0 :: rat) \<le> 1 / 2 ^ 53 \<and> (1 / 2 ^ 53 :: rat) \<le> 1 \<and>
   (\<forall>x. \<bar>round64 \<bar>x\<bar> - \<bar>x\<bar>\<bar> \<le> 1 / 2 ^ 53 * \<bar>x\<bar>) \<and>
   (1 :: rat) < of_int \<bar>980 - 1000\<bar> / of_int 1000 * 100 * (1 - 1 / 2 ^ 53)\<^sup>2 \<and>
   \<not> fst (validate_cleaning_results round64 (example_env [] [] [] (validation_answers 980 (- 20)))
            ''proj.ds.tbl'' 1000 1 []) \<and>
   (of_int \<bar>995 - 1000\<bar> / of_int 1000 * 100 * (1 + 1 / 2 ^ 53)\<^sup>2 :: rat) \<le> 1 \<and>
   fst (validate_cleaning_results round64 (example_env [] [] [] (validation_answers 995 (- 5)))
          ''proj.ds.tbl'' 1000 1 []) \<and>
   fst (validate_cleaning_results round64 (example_env [] [] [] (validation_answers 1000 0))
          ''proj.ds.tbl'' 1000 1 [])"
proof -
  define u :: rat where "u = 1 / 2 ^ 53"
  define ef where "ef = example_env [] [] [] failing_answers"
  define e1 where "e1 = example_env [] [] [] (validation_answers 980 (- 20))"
  define e2 where "e2 = example_env [] [] [] (validation_answers 995 (- 5))"
  define e3 where "e3 = example_env [] [] [] (validation_answers 1000 0)"
  define r1 :: row where "r1 = [''current_row_count'' \<mapsto> IntV 980, ''row_count_change'' \<mapsto> IntV (- 20)]"
  define r2 :: row where "r2 = [''current_row_count'' \<mapsto> IntV 995, ''row_count_change'' \<mapsto> IntV (- 5)]"
  define r3 :: row where "r3 = [''current_row_count'' \<mapsto> IntV 1000, ''row_count_change'' \<mapsto> IntV 0]"
  have qf: "query_r ef [] (ValidationSql ''proj.ds.tbl'' 1000) None = Inl OtherError"
    by (simp add: ef_def example_env_def failing_answers_def)
  have q1: "query_r e1 [] (ValidationSql ''proj.ds.tbl'' 1000) None = Inr (r1 # [])"
    by (simp add: e1_def r1_def example_env_def validation_answers_def)
  have q2: "query_r e2 [] (ValidationSql ''proj.ds.tbl'' 1000) None = Inr (r2 # [])"
    by (simp add: e2_def r2_def example_env_def validation_answers_def)
  have q3: "query_r e3 [] (ValidationSql ''proj.ds.tbl'' 1000) None = Inr (r3 # [])"
    by (simp add: e3_def r3_def example_env_def validation_answers_def)
  have c1: "r1 ''current_row_count'' = Some (IntV 980)"
    "r1 ''row_count_change'' = Some (IntV (980 - 1000))" by (simp_all add: r1_def)
  have c2: "r2 ''current_row_count'' = Some (IntV 995)"
    "r2 ''row_count_change'' = Some (IntV (995 - 1000))" by (simp_all add: r2_def)
  have c3: "r3 ''current_row_count'' = Some (IntV 1000)"
    "r3 ''row_count_change'' = Some (IntV (1000 - 1000))" by (simp_all add: r3_def)
  have n: "(0 :: int) < 1000" "(980 :: int) \<noteq> 1000" "(995 :: int) \<noteq> 1000" by simp_all
  have u: "0 \<le> u" "u \<le> 1" by (simp_all add: u_def)
  have err: "\<forall>x. 0 \<le> x \<longrightarrow> \<bar>round64 x - x\<bar> \<le> u * x"
    using round64_error by (simp add: u_def)
  have err': "\<forall>x. \<bar>round64 \<bar>x\<bar> - \<bar>x\<bar>\<bar> \<le> u * \<bar>x\<bar>" using err by simp
  have b1: "(1 :: rat) < of_int \<bar>980 - 1000\<bar> / of_int 1000 * 100 * (1 - u)\<^sup>2"
    by (simp add: u_def power2_eq_square)
  have b2: "(of_int \<bar>995 - 1000\<bar> / of_int 1000 * 100 * (1 + u)\<^sup>2 :: rat) \<le> 1"
    by (simp add: u_def power2_eq_square)
  have tf: "\<not> fst (validate_cleaning_results round64 ef ''proj.ds.tbl'' 1000 1 [])"
    using validate_cleaning_results_rule [of ef "[]" "''proj.ds.tbl''" 1000 OtherError round64 1] qf
    by blast
  have t1: "\<not> fst (validate_cleaning_results round64 e1 ''proj.ds.tbl'' 1000 1 [])"
    using validate_cleaning_results_rule
            [of e1 "[]" "''proj.ds.tbl''" 1000 _ round64 1 r1 "[]" 980 u] q1 c1 n u err b1
    by blast
  have t2: "fst (validate_cleaning_results round64 e2 ''proj.ds.tbl'' 1000 1 [])"
    using validate_cleaning_results_rule
            [of e2 "[]" "''proj.ds.tbl''" 1000 _ round64 1 r2 "[]" 995 u] q2 c2 n u err b2
    by blast
  have t3: "fst (validate_cleaning_results round64 e3 ''proj.ds.tbl'' 1000 1 [])"
    using validate_cleaning_results_rule
            [of e3 "[]" "''proj.ds.tbl''" 1000 _ round64 1 r3 "[]" 1000 u] q3 c3
    by blast
  have q1': "query_r e1 [] (ValidationSql ''proj.ds.tbl'' 1000) None = Inr [r1]" using q1 by simp
  show ?thesis
    using qf tf q1' n(1,2) u err' b1 t1 b2 t2 t3
    unfolding u_def ef_def e1_def e2_def e3_def r1_def by blast
qed

subsection \<open>\<open>validate_data_integrity\<close>\<close>

text \<open>
  Claim C7. When the schema query answers, \<open>validate_data_integrity\<close> returns whether
  every expected column is among the columns of the table: \<open>False\<close> when one is missing.
  When the query raises, when a result row cannot be read, or when the table reference
  has fewer than three pieces, the handler returns \<open>True\<close>.
\<close>

theorem validate_data_integrity_permissive:
  "(py_split (CHR ''.'') table_ref = p0 # p1 # p2 # ps \<longrightarrow>
      (query_r e h (SchemaColumnsSql p0 p1 p2) None = Inr rows \<longrightarrow>
       column_names rows = Inr schema_columns \<longrightarrow>
         fst (validate_data_integrity e table_ref fs h) = (set fs \<subseteq> set schema_columns)) \<and>
      (query_r e h (SchemaColumnsSql p0 p1 p2) None = Inl ex \<longrightarrow>
         fst (validate_data_integrity e table_ref fs h) = True) \<and>
      (query_r e h (SchemaColumnsSql p0 p1 p2) None = Inr rows \<longrightarrow>
       column_names rows = Inl ex \<longrightarrow>
         fst (validate_data_integrity e table_ref fs h) = True)) \<and>
   (length (py_split (CHR ''.'') table_ref) < 3 \<longrightarrow>
      validate_data_integrity e table_ref fs h = (True, h))"
proof -
  have a: "fst (validate_data_integrity e table_ref fs h) = (set fs \<subseteq> set schema_columns)"
    if "py_split (CHR ''.'') table_ref = p0 # p1 # p2 # ps"
      "query_r e h (SchemaColumnsSql p0 p1 p2) None = Inr rows"
      "column_names rows = Inr schema_columns"
    using that by (auto simp: validate_data_integrity_def query_def Let_def)
  have b: "fst (validate_data_integrity e table_ref fs h) = True"
    if "py_split (CHR ''.'') table_ref = p0 # p1 # p2 # ps"
      "query_r e h (SchemaColumnsSql p0 p1 p2) None = Inl ex"
    using that by (simp add: validate_data_integrity_def query_def)
  have c: "fst (validate_data_integrity e table_ref fs h) = True"
    if "py_split (CHR ''.'') table_ref = p0 # p1 # p2 # ps"
      "query_r e h (SchemaColumnsSql p0 p1 p2) None = Inr rows"
      "column_names rows = Inl ex"
    using that by (simp add: validate_data_integrity_def query_def)
  have d: "validate_data_integrity e table_ref fs h = (True, h)"
    if "length (py_split (CHR ''.'') table_ref) < 3"
    using that by (auto simp: validate_data_integrity_def split: list.splits)
  show ?thesis using a b c d by blast
qed

theorem validate_data_integrity_permissive_witness:
  "py_split (CHR ''.'') ''proj.ds.tbl'' = [''proj'', ''ds'', ''tbl''] \<and>
   query_r (example_env [] [] [] (\<lambda>q. Inr [[''column_name'' \<mapsto> StrV ''id'']])) []
      (SchemaColumnsSql ''proj'' ''ds'' ''tbl'') None = Inr [[''column_name'' \<mapsto> StrV ''id'']] \<and>
   column_names [[''column_name'' \<mapsto> StrV ''id'']] = Inr [''id''] \<and>
   \<not> set [''id'', ''email''] \<subseteq> set [''id''] \<and>
   \<not> fst (validate_data_integrity
            (example_env [] [] [] (\<lambda>q. Inr [[''column_name'' \<mapsto> StrV ''id'']]))
            ''proj.ds.tbl'' [''id'', ''email''] []) \<and>
   query_r (example_env [] [] [] (\<lambda>q. Inl OtherError)) []
      (SchemaColumnsSql ''proj'' ''ds'' ''tbl'') None = Inl OtherError \<and>
   fst (validate_data_integrity (example_env [] [] [] (\<lambda>q. Inl OtherError))
          ''proj.ds.tbl'' [''id'', ''email''] []) \<and>
   length (py_split (CHR ''.'') ''tbl'') < 3 \<and>
   validate_data_integrity (example_env [] [] [] (\<lambda>q. Inl OtherError)) ''tbl'' [''id'', ''email''] []
     = (True, [])"
proof -
  define r1 :: row where "r1 = [''column_name'' \<mapsto> StrV ''id'']"
  define e1 where "e1 = example_env [] [] [] (\<lambda>q. Inr [r1])"
  define e2 where "e2 = example_env [] [] [] (\<lambda>q. Inl OtherError)"
  have sp: "py_split (CHR ''.'') ''proj.ds.tbl'' = ''proj'' # ''ds'' # ''tbl'' # []" by code_simp
  have sp2: "length (py_split (CHR ''.'') ''tbl'') < 3" by code_simp
  have q1: "query_r e1 [] (SchemaColumnsSql ''proj'' ''ds'' ''tbl'') None = Inr [r1]"
    by (simp add: e1_def example_env_def)
  have q2: "query_r e2 [] (SchemaColumnsSql ''proj'' ''ds'' ''tbl'') None = Inl OtherError"
    by (simp add: e2_def example_env_def)
  have cn: "column_names [r1] = Inr [''id'']" by (simp add: r1_def str_attr_def)
  have ms: "\<not> set [''id'', ''email''] \<subseteq> set [''id'']" by simp
  have t1: "fst (validate_data_integrity e1 ''proj.ds.tbl'' [''id'', ''email''] [])
              = (set [''id'', ''email''] \<subseteq> set [''id''])"
    using validate_data_integrity_permissive
            [of "''proj.ds.tbl''" "''proj''" "''ds''" "''tbl''" "[]" e1 "[]" "[r1]" "[''id'']"
                "[''id'', ''email'']"]
      sp q1 cn by blast
  have a1: "\<not> fst (validate_data_integrity e1 ''proj.ds.tbl'' [''id'', ''email''] [])"
    unfolding t1 using ms .
  have t2: "fst (validate_data_integrity e2 ''proj.ds.tbl'' [''id'', ''email''] []) = True"
    using validate_data_integrity_permissive
            [of "''proj.ds.tbl''" "''proj''" "''ds''" "''tbl''" "[]" e2 "[]" _ _ _ OtherError]
      sp q2 by blast
  have t3: "validate_data_integrity e2 ''tbl'' [''id'', ''email''] [] = (True, [])"
    using validate_data_integrity_permissive [of "''tbl''" _ _ _ _ e2 "[]" _ _ "[''id'', ''email'']"]
      sp2 by blast
  have sp': "py_split (CHR ''.'') ''proj.ds.tbl'' = [''proj'', ''ds'', ''tbl'']" using sp .
  have a2: "fst (validate_data_integrity e2 ''proj.ds.tbl'' [''id'', ''email''] [])" using t2 by simp
  show ?thesis using sp' q1 cn ms a1 q2 a2 sp2 t3 unfolding e1_def e2_def r1_def by blast
qed

end
